theory Spec2Isabelle
  imports Main
begin

section \<open>Values thrown by JavaScript code\<close>

text \<open>
  A \<^verbatim>\<open>catch (e)\<close> clause of \<^verbatim>\<open>TemplatesManager.ts\<close> does three things with the
  caught value: it calls \<^verbatim>\<open>e.toString()\<close>, it tests \<^verbatim>\<open>e instanceof SyntaxError\<close> and
  it reads \<^verbatim>\<open>e.message\<close>. The values below are the ones on which these three differ:
  \<^verbatim>\<open>undefined\<close> and \<^verbatim>\<open>null\<close> (a template may \<^verbatim>\<open>throw null\<close>), a thrown string,
  and an error object of one of the built-in classes with its message.
\<close>

datatype js_error_class = Error_class | SyntaxError_class | TypeError_class

datatype js_value =
    JS_undefined
  | JS_null
  | JS_string string
  | JS_error js_error_class string

fun class_name :: "js_error_class \<Rightarrow> string" where
  "class_name Error_class = ''Error''"
| "class_name SyntaxError_class = ''SyntaxError''"
| "class_name TypeError_class = ''TypeError''"

text \<open>\<^verbatim>\<open>e instanceof SyntaxError\<close>.\<close>

fun instanceof_SyntaxError :: "js_value \<Rightarrow> bool" where
  "instanceof_SyntaxError (JS_error SyntaxError_class m) = True"
| "instanceof_SyntaxError v = False"

text \<open>\<^verbatim>\<open>e.message\<close>, read only after the \<^verbatim>\<open>instanceof\<close> test has succeeded.\<close>

fun message :: "js_value \<Rightarrow> string" where
  "message (JS_error c m) = m"
| "message v = []"

text \<open>
  \<^verbatim>\<open>e!.toString()\<close>: the non-null assertion is erased by the compiler, so the call on
  \<^verbatim>\<open>undefined\<close> or \<^verbatim>\<open>null\<close> throws a TypeError. An error object prints as its class
  name, followed by a colon and the message when the message is not empty.
\<close>

fun toString :: "js_value \<Rightarrow> js_value + string" where
  "toString JS_undefined = Inl (JS_error TypeError_class ''Cannot read properties of undefined'')"
| "toString JS_null = Inl (JS_error TypeError_class ''Cannot read properties of null'')"
| "toString (JS_string s) = Inr s"
| "toString (JS_error c m) = Inr (if m = [] then class_name c else class_name c @ '': '' @ m)"

section \<open>Data model\<close>

text \<open>
  The module \<^verbatim>\<open>./types\<close> is not among the sources; the records below have the fields that
  \<^verbatim>\<open>useTemplates\<close> and \<^verbatim>\<open>createNewFileBasedOnTemplate\<close> write into the object literals
  of these types.
\<close>

record TTemplate =
  name :: string
  filename :: string
  path :: string

record TCreatedFile =
  fileName :: string
  extension :: string
  directoryFolderName :: string
  directoryPath :: string

record TAuthor =
  author_name :: string
  author_email :: string

record TTemplateOptions =
  createdFile :: TCreatedFile
  author :: TAuthor
  customOptions :: "(string \<times> string) list"

type_synonym TTemplateModuleRender = "TTemplateOptions \<Rightarrow> js_value + string"

section \<open>The world the manager acts on\<close>

text \<open>
  The mutable world: the regular files with their content, the directories, the key-value
  state kept by \<^verbatim>\<open>ContextManager\<close> and the messages handed to \<^verbatim>\<open>ContextManager.log\<close>
  (message first, level second, as in the calls).
\<close>

record world =
  files :: "string \<rightharpoonup> string"
  dirs :: "string set"
  savedState :: "string \<rightharpoonup> string"
  logged :: "(string \<times> string) list"

text \<open>
  Everything the manager only reads or calls: Node's \<^verbatim>\<open>path\<close> functions, the directory of
  the compiled module (\<^verbatim>\<open>__dirname\<close>), the settings behind \<^verbatim>\<open>Configuration.read\<close>, the
  module loader \<^verbatim>\<open>require\<close>, the directory listing \<^verbatim>\<open>fs.readdir\<close> yields, and the
  operating system's verdict on a directory creation, a file write or a file read (\<open>Some m\<close>: refused
  with the error message \<open>m\<close>).
\<close>

record env =
  path_join :: "string \<Rightarrow> string \<Rightarrow> string"
  path_basename :: "string \<Rightarrow> string"
  path_basename_ext :: "string \<Rightarrow> string \<Rightarrow> string"
  path_extname :: "string \<Rightarrow> string"
  dirname :: string
  settings :: "string \<rightharpoonup> string"
  customOptionsSetting :: "(string \<times> string) list option"
  require :: "string \<Rightarrow> js_value + TTemplateModuleRender"
  readdir :: "string \<Rightarrow> js_value + string list"
  mkdir_refused :: "world \<Rightarrow> string \<Rightarrow> string option"
  write_refused :: "world \<Rightarrow> string \<Rightarrow> string option"
  read_refused :: "world \<Rightarrow> string \<Rightarrow> string option"

subsection \<open>File system calls\<close>

text \<open>\<^verbatim>\<open>fs.existsSync\<close> is true of a file and of a directory alike.\<close>

definition existsSync :: "world \<Rightarrow> string \<Rightarrow> bool" where
  "existsSync w p = (case files w p of Some c \<Rightarrow> True | None \<Rightarrow> p \<in> dirs w)"

definition readFileSync :: "env \<Rightarrow> world \<Rightarrow> string \<Rightarrow> js_value + string" where
  "readFileSync e w p =
     (case files w p of
        Some c \<Rightarrow>
          (case read_refused e w p of
             Some m \<Rightarrow> Inl (JS_error Error_class m)
           | None \<Rightarrow> Inr c)
      | None \<Rightarrow>
          if p \<in> dirs w
          then Inl (JS_error Error_class ''EISDIR: illegal operation on a directory, read'')
          else Inl (JS_error Error_class ''ENOENT: no such file or directory, open''))"

definition writeFileSync :: "env \<Rightarrow> world \<Rightarrow> string \<Rightarrow> string \<Rightarrow> (js_value + unit) \<times> world" where
  "writeFileSync e w p c =
     (case write_refused e w p of
        Some m \<Rightarrow> (Inl (JS_error Error_class m), w)
      | None \<Rightarrow> (Inr (), w\<lparr>files := (files w)(p \<mapsto> c)\<rparr>))"

definition mkdirSync :: "env \<Rightarrow> world \<Rightarrow> string \<Rightarrow> (js_value + unit) \<times> world" where
  "mkdirSync e w p =
     (case mkdir_refused e w p of
        Some m \<Rightarrow> (Inl (JS_error Error_class m), w)
      | None \<Rightarrow> (Inr (), w\<lparr>dirs := insert p (dirs w)\<rparr>))"

subsection \<open>Configuration and ContextManager\<close>

text \<open>
  Modelled from the spec: \<^verbatim>\<open>Configuration\<close> is not among the sources. The external
  interface is \<^verbatim>\<open>read(key, default) -> value\<close>: the configured value of the key, and the
  default when the key is not set.
\<close>

definition Configuration_read :: "env \<Rightarrow> string \<Rightarrow> string \<Rightarrow> string" where
  "Configuration_read e key dflt = (case settings e key of Some v \<Rightarrow> v | None \<Rightarrow> dflt)"

definition Configuration_read_customOptions :: "env \<Rightarrow> (string \<times> string) list" where
  "Configuration_read_customOptions e =
     (case customOptionsSetting e of Some v \<Rightarrow> v | None \<Rightarrow> [])"

text \<open>
  Modelled from the spec: \<^verbatim>\<open>ContextManager\<close> is not among the sources. It holds the
  process-wide state (the cached default skeleton, stored under the key
  \<^verbatim>\<open>defaultTemplate\<close>) and receives the log messages. \<^verbatim>\<open>saveState\<close> stores a value under
  a key, \<^verbatim>\<open>useState\<close> reads it back (nothing stored reads as \<^verbatim>\<open>undefined\<close>, here
  \<open>None\<close>), \<^verbatim>\<open>log\<close> records the message with its level.
\<close>

definition ContextManager_saveState :: "world \<Rightarrow> string \<Rightarrow> string \<Rightarrow> world" where
  "ContextManager_saveState w key v = w\<lparr>savedState := (savedState w)(key \<mapsto> v)\<rparr>"

definition ContextManager_useState :: "world \<Rightarrow> string \<Rightarrow> string option" where
  "ContextManager_useState w key = savedState w key"

definition ContextManager_log :: "world \<Rightarrow> string \<Rightarrow> string \<Rightarrow> world" where
  "ContextManager_log w msg level = w\<lparr>logged := logged w @ [(msg, level)]\<rparr>"

section \<open>TemplatesManager\<close>

definition TEMPLATE_EXTENSION :: string where
  "TEMPLATE_EXTENSION = ''.js''"

definition templatesDirPath :: "env \<Rightarrow> string" where
  "templatesDirPath e =
     Configuration_read e ''templatesDir'' (path_join e (dirname e) ''templates'')"

definition templateFilePath :: "env \<Rightarrow> string \<Rightarrow> string" where
  "templateFilePath e templateName =
     path_join e (templatesDirPath e) (templateName @ TEMPLATE_EXTENSION)"

definition existsTemplate :: "env \<Rightarrow> world \<Rightarrow> string \<Rightarrow> bool" where
  "existsTemplate e w templateName = existsSync w (templateFilePath e templateName)"

definition existsTemplatesDir :: "env \<Rightarrow> world \<Rightarrow> bool" where
  "existsTemplatesDir e w = existsSync w (templatesDirPath e)"

subsection \<open>createTemplatesDirIfNotExists\<close>

definition dir_creation_message :: string where
  "dir_creation_message = ''A error ocurred when trying create a templates directory.''"

text \<open>
  The \<^verbatim>\<open>try\<close> block holds the existence test, the \<^verbatim>\<open>mkdirSync\<close> call and the info log;
  whatever \<^verbatim>\<open>mkdirSync\<close> throws is caught, and a new error with the fixed message is
  thrown in its place.
\<close>

definition createTemplatesDirIfNotExists :: "env \<Rightarrow> world \<Rightarrow> (js_value + unit) \<times> world" where
  "createTemplatesDirIfNotExists e w =
     (case (if \<not> existsTemplatesDir e w then mkdirSync e w (templatesDirPath e)
            else (Inr (), w)) of
        (Inl ex, w1) \<Rightarrow>
          (Inl (JS_error Error_class dir_creation_message),
           ContextManager_log w1 dir_creation_message ''error'')
      | (Inr u, w1) \<Rightarrow>
          (Inr (),
           ContextManager_log w1
             (''Templates Directory created on path: '' @ templatesDirPath e @ ''.'') ''info''))"

subsection \<open>createFileTemplate\<close>

definition name_collision_message :: string where
  "name_collision_message = ''The template name already exists, please choose other name.''"

definition createFileTemplate :: "env \<Rightarrow> world \<Rightarrow> string \<Rightarrow> string \<Rightarrow> (js_value + string) \<times> world" where
  "createFileTemplate e w templateName content =
     (if existsTemplate e w templateName
      then (Inl (JS_error Error_class name_collision_message),
            ContextManager_log w name_collision_message ''warn'')
      else
        (case createTemplatesDirIfNotExists e w of
           (Inl ex, w1) \<Rightarrow> (Inl ex, w1)
         | (Inr u, w1) \<Rightarrow>
             (case writeFileSync e w1 (templateFilePath e templateName) content of
                (Inl ex, w2) \<Rightarrow> (Inl ex, w2)
              | (Inr u2, w2) \<Rightarrow> (Inr (templateFilePath e templateName), w2))))"

subsection \<open>getTemplateRenderEstructure\<close>

definition no_default_message :: string where
  "no_default_message = ''Sorry, Cannot retrieve a template renderer default.''"

text \<open>
  The conditional expression yields the content of the file \<^verbatim>\<open>default.js\<close> when that
  path exists and the saved state otherwise; \<^verbatim>\<open>.length\<close> of an \<^verbatim>\<open>undefined\<close> state
  throws a TypeError, and an empty string is refused with an error of its own.
\<close>

definition getTemplateRenderEstructure :: "env \<Rightarrow> world \<Rightarrow> (js_value + string) \<times> world" where
  "getTemplateRenderEstructure e w =
     (case (if existsTemplate e w ''default''
            then readFileSync e w (templateFilePath e ''default'')
            else (case ContextManager_useState w ''defaultTemplate'' of
                    None \<Rightarrow> Inl (JS_error TypeError_class ''Cannot read properties of undefined'')
                  | Some s \<Rightarrow> Inr s)) of
        Inl ex \<Rightarrow> (Inl ex, w)
      | Inr templateDefault \<Rightarrow>
          if templateDefault = []
          then (Inl (JS_error Error_class no_default_message),
                ContextManager_log w no_default_message ''warn'')
          else (Inr templateDefault, w))"

definition constructor :: "env \<Rightarrow> world \<Rightarrow> (js_value + unit) \<times> world" where
  "constructor e w =
     (case getTemplateRenderEstructure e w of
        (Inl ex, w1) \<Rightarrow> (Inl ex, w1)
      | (Inr s, w1) \<Rightarrow> (Inr (), ContextManager_saveState w1 ''defaultTemplate'' s))"

definition createNewFileTemplate :: "env \<Rightarrow> world \<Rightarrow> string \<Rightarrow> (js_value + string) \<times> world" where
  "createNewFileTemplate e w templateName =
     (case getTemplateRenderEstructure e w of
        (Inl ex, w1) \<Rightarrow> (Inl ex, w1)
      | (Inr s, w1) \<Rightarrow> createFileTemplate e w1 templateName s)"

subsection \<open>renderTemplateContent\<close>

definition syntax_prefix :: string where
  "syntax_prefix = ''Your template has sintax errors: ''"

definition generic_render_message :: string where
  "generic_render_message = ''An error as ocurred rendering a template.''"

text \<open>
  The outer \<^verbatim>\<open>catch\<close>: the message of a SyntaxError is forwarded, any other caught value
  gives the generic message; the message is logged and thrown as a plain Error.
\<close>

definition render_catch :: "world \<Rightarrow> js_value \<Rightarrow> (js_value + string) \<times> world" where
  "render_catch w ex =
     (let error = (if instanceof_SyntaxError ex then message ex else generic_render_message)
      in (Inl (JS_error Error_class error), ContextManager_log w error ''error''))"

text \<open>
  The outer \<^verbatim>\<open>try\<close> holds \<^verbatim>\<open>require(template.path)\<close> and the inner \<^verbatim>\<open>try\<close>; the inner
  one holds the invocation. In the inner \<^verbatim>\<open>catch\<close> the argument of the log call,
  \<^verbatim>\<open>e!.toString()\<close>, is evaluated first, and what it throws reaches the outer \<^verbatim>\<open>catch\<close>
  as it is.
\<close>

definition renderTemplateContent :: "env \<Rightarrow> world \<Rightarrow> TTemplate \<Rightarrow> TTemplateOptions \<Rightarrow> (js_value + string) \<times> world" where
  "renderTemplateContent e w template options =
     (case require e (path template) of
        Inl ex \<Rightarrow> render_catch w ex
      | Inr templateRender \<Rightarrow>
          (case templateRender options of
             Inl ex \<Rightarrow>
               (case toString ex of
                  Inl ex2 \<Rightarrow> render_catch w ex2
                | Inr s \<Rightarrow>
                    render_catch (ContextManager_log w (syntax_prefix @ s) ''warn'')
                      (JS_error SyntaxError_class (syntax_prefix @ s)))
           | Inr content \<Rightarrow>
               (Inr content,
                ContextManager_log w (''Template Content: '' @ [CHR 0x0A] @ content) ''info'')))"

subsection \<open>createNewFileBasedOnTemplate\<close>

definition inexistent_template_message :: string where
  "inexistent_template_message = ''Inexistent template.''"

definition directory_missing_message :: string where
  "directory_missing_message = ''The directory to create a file not exists.''"

definition templateOptions :: "env \<Rightarrow> string \<Rightarrow> string \<Rightarrow> TTemplateOptions" where
  "templateOptions e newFileName createFileDirectoryPath =
     \<lparr>createdFile =
        \<lparr>fileName = path_basename_ext e newFileName (path_extname e newFileName),
         extension = path_extname e newFileName,
         directoryFolderName = path_basename e createFileDirectoryPath,
         directoryPath = createFileDirectoryPath\<rparr>,
      author =
        \<lparr>author_name = Configuration_read e ''author.name'' [],
         author_email = Configuration_read e ''author.email'' []\<rparr>,
      customOptions = Configuration_read_customOptions e\<rparr>"

definition createNewFileBasedOnTemplate :: "env \<Rightarrow> world \<Rightarrow> TTemplate \<Rightarrow> string \<Rightarrow> string \<Rightarrow> (js_value + string) \<times> world" where
  "createNewFileBasedOnTemplate e w template newFileName createFileDirectoryPath =
     (if existsTemplate e w (name template)
      then
        (let newFileNameWithPath = path_join e createFileDirectoryPath newFileName
         in if existsSync w createFileDirectoryPath
            then
              (case renderTemplateContent e w template
                      (templateOptions e newFileName createFileDirectoryPath) of
                 (Inl ex, w1) \<Rightarrow> (Inl ex, w1)
               | (Inr templateContent, w1) \<Rightarrow>
                   (case writeFileSync e w1 newFileNameWithPath templateContent of
                      (Inl ex, w2) \<Rightarrow> (Inl ex, w2)
                    | (Inr u, w2) \<Rightarrow> (Inr newFileNameWithPath, w2)))
            else (Inl (JS_error Error_class directory_missing_message),
                  ContextManager_log w directory_missing_message ''warn''))
      else (Inl (JS_error Error_class inexistent_template_message),
            ContextManager_log w inexistent_template_message ''warn''))"

subsection \<open>useTemplates\<close>

text \<open>
  The \<^verbatim>\<open>Map\<close> keeps its entries in insertion order: a list of key-value pairs, with
  \<^verbatim>\<open>has\<close> and \<^verbatim>\<open>set\<close> (which replaces the value of a present key in place and appends
  an absent one).
\<close>

type_synonym templates_map = "(string \<times> TTemplate) list"

definition Map_has :: "templates_map \<Rightarrow> string \<Rightarrow> bool" where
  "Map_has m k = (map_of m k \<noteq> None)"

fun Map_set :: "templates_map \<Rightarrow> string \<Rightarrow> TTemplate \<Rightarrow> templates_map" where
  "Map_set [] k v = [(k, v)]"
| "Map_set ((k', v') # m) k v = (if k' = k then (k, v) # m else (k', v') # Map_set m k v)"

text \<open>The body of the \<^verbatim>\<open>forEach\<close> callback, and the loop over the listing.\<close>

definition add_template_file :: "env \<Rightarrow> string \<Rightarrow> templates_map \<Rightarrow> string \<Rightarrow> templates_map" where
  "add_template_file e templatesDir templates templateFile =
     (let templateName = path_basename_ext e templateFile (path_extname e templateFile)
      in if \<not> Map_has templates templateName
         then Map_set templates templateName
                \<lparr>name = templateName, filename = templateFile,
                 path = path_join e templatesDir templateFile\<rparr>
         else templates)"

fun forEach_template_file :: "env \<Rightarrow> string \<Rightarrow> templates_map \<Rightarrow> string list \<Rightarrow> templates_map" where
  "forEach_template_file e templatesDir templates [] = templates"
| "forEach_template_file e templatesDir templates (templateFile # rest) =
     forEach_template_file e templatesDir
       (add_template_file e templatesDir templates templateFile) rest"

text \<open>
  The promise is rejected with the error of \<^verbatim>\<open>readdir\<close> (\<open>Inl\<close>) or resolved with the
  map (\<open>Inr\<close>); the rejection logs \<^verbatim>\<open>error.message + error.cause\<close>, and an error of
  \<^verbatim>\<open>readdir\<close> has no cause.
\<close>

definition useTemplates :: "env \<Rightarrow> world \<Rightarrow> (js_value + templates_map) \<times> world" where
  "useTemplates e w =
     (case readdir e (templatesDirPath e) of
        Inl error \<Rightarrow> (Inl error, ContextManager_log w (message error @ ''undefined'') ''error'')
      | Inr filesTemplate \<Rightarrow>
          (Inr (forEach_template_file e (templatesDirPath e) [] filesTemplate), w))"

section \<open>Node's path functions on POSIX\<close>

text \<open>
  The theorems below hold for any \<open>path\<close> functions. The concrete scenarios use the
  POSIX ones, defined here on their documented behaviour: the last component of a path
  ignores trailing slashes; the extension starts at the last dot of the last component,
  and is empty when there is no dot, when the last dot is the first character, or when
  the component is \<^verbatim>\<open>..\<close>; \<^verbatim>\<open>basename\<close> with a suffix drops the suffix from the
  component unless the suffix is the whole component; \<^verbatim>\<open>join\<close> glues the non-empty
  arguments with a slash and normalises the result.
\<close>

definition last_component :: "string \<Rightarrow> string" where
  "last_component p =
     rev (takeWhile (\<lambda>c. c \<noteq> CHR ''/'') (dropWhile (\<lambda>c. c = CHR ''/'') (rev p)))"

definition posix_basename :: "string \<Rightarrow> string" where
  "posix_basename p = last_component p"

definition posix_extname :: "string \<Rightarrow> string" where
  "posix_extname p =
     (let c = last_component p;
          ext = rev (takeWhile (\<lambda>x. x \<noteq> CHR ''.'') (rev c))
      in if CHR ''.'' \<notin> set c then []
         else if Suc (length ext) = length c then []
         else if c = ''..'' then []
         else CHR ''.'' # ext)"

definition posix_basename_ext :: "string \<Rightarrow> string \<Rightarrow> string" where
  "posix_basename_ext p ext =
     (if ext = [] then last_component p
      else if length p < length ext then last_component p
      else if ext = p then []
      else
        (let c = last_component p
         in if length ext < length c \<and> drop (length c - length ext) c = ext
            then take (length c - length ext) c
            else c))"

fun split_slash :: "string \<Rightarrow> string list" where
  "split_slash [] = [[]]"
| "split_slash (c # cs) =
     (if c = CHR ''/'' then [] # split_slash cs
      else (case split_slash cs of [] \<Rightarrow> [[c]] | s # ss \<Rightarrow> (c # s) # ss))"

fun normalize_segments :: "bool \<Rightarrow> string list \<Rightarrow> string list \<Rightarrow> string list" where
  "normalize_segments allowAboveRoot res [] = rev res"
| "normalize_segments allowAboveRoot res (s # ss) =
     (if s = [] then normalize_segments allowAboveRoot res ss
      else if s = ''.'' then normalize_segments allowAboveRoot res ss
      else if s = ''..'' then
        (case res of
           [] \<Rightarrow> normalize_segments allowAboveRoot (if allowAboveRoot then [''..''] else []) ss
         | r # rs \<Rightarrow>
             if r = ''..''
             then normalize_segments allowAboveRoot (if allowAboveRoot then ''..'' # res else res) ss
             else normalize_segments allowAboveRoot rs ss)
      else normalize_segments allowAboveRoot (s # res) ss)"

fun join_slash :: "string list \<Rightarrow> string" where
  "join_slash [] = []"
| "join_slash [s] = s"
| "join_slash (s # ss) = s @ ''/'' @ join_slash ss"

definition posix_normalize :: "string \<Rightarrow> string" where
  "posix_normalize p =
     (if p = [] then ''.''
      else
        (let isAbsolute = (hd p = CHR ''/'');
             trailingSeparator = (last p = CHR ''/'');
             q = join_slash (normalize_segments (\<not> isAbsolute) [] (split_slash p))
         in if q = [] then (if isAbsolute then ''/'' else if trailingSeparator then ''./'' else ''.'')
            else (if isAbsolute then ''/'' else []) @ q @ (if trailingSeparator then ''/'' else [])))"

definition posix_join :: "string \<Rightarrow> string \<Rightarrow> string" where
  "posix_join a b =
     (let joined = (if a = [] then b else if b = [] then a else a @ ''/'' @ b)
      in if joined = [] then ''.'' else posix_normalize joined)"

text \<open>\<^verbatim>\<open>String.prototype.includes\<close>: the second string occurs in the first.\<close>

fun js_includes :: "string \<Rightarrow> string \<Rightarrow> bool" where
  "js_includes [] sub = (sub = [])"
| "js_includes (c # s) sub = (if take (length sub) (c # s) = sub then True else js_includes s sub)"

section \<open>A concrete installation\<close>

text \<open>
  The extension is compiled to \<^verbatim>\<open>/ext/out\<close> and no templates directory is configured,
  so the templates live in \<^verbatim>\<open>/ext/out/templates\<close>. Three modules can be loaded:
  \<^verbatim>\<open>greet.js\<close> returns \<^verbatim>\<open>"Hello, " + options.createdFile.fileName\<close>, the render
  function of \<^verbatim>\<open>boom.js\<close> throws \<^verbatim>\<open>new Error("boom")\<close>, and \<^verbatim>\<open>broken.js\<close> is not
  well-formed JavaScript, so that loading it throws a SyntaxError.
\<close>

definition greet :: TTemplateModuleRender where
  "greet options = Inr (''Hello, '' @ fileName (createdFile options))"

definition boom :: TTemplateModuleRender where
  "boom options = Inl (JS_error Error_class ''boom'')"

definition demo_require :: "string \<Rightarrow> js_value + TTemplateModuleRender" where
  "demo_require p =
     (if p = ''/ext/out/templates/greet.js'' then Inr greet
      else if p = ''/ext/out/templates/boom.js'' then Inr boom
      else if p = ''/ext/out/templates/broken.js''
      then Inl (JS_error SyntaxError_class ''Unexpected token }'')
      else Inl (JS_error Error_class ''Cannot find module''))"

definition demo_readdir :: "string \<Rightarrow> js_value + string list" where
  "demo_readdir d =
     (if d = ''/ext/out/templates'' then Inr [''a.ext2'', ''b.ext'', ''a.ext'']
      else Inl (JS_error Error_class ''ENOENT: no such file or directory, scandir''))"

definition never_refused :: "world \<Rightarrow> string \<Rightarrow> string option" where
  "never_refused w p = None"

definition permission_denied :: "world \<Rightarrow> string \<Rightarrow> string option" where
  "permission_denied w p = Some ''EACCES: permission denied, mkdir''"

definition demo_env :: env where
  "demo_env =
     \<lparr>path_join = posix_join, path_basename = posix_basename,
      path_basename_ext = posix_basename_ext, path_extname = posix_extname,
      dirname = ''/ext/out'', settings = Map.empty, customOptionsSetting = None,
      require = demo_require, readdir = demo_readdir,
      mkdir_refused = never_refused, write_refused = never_refused,
      read_refused = never_refused\<rparr>"

definition readonly_env :: env where
  "readonly_env = demo_env\<lparr>mkdir_refused := permission_denied\<rparr>"

text \<open>
  A world with the templates directory, the three modules, a text file \<^verbatim>\<open>note.txt\<close>
  beside them, an empty \<^verbatim>\<open>default.js\<close>, and a project directory that already holds a
  file \<^verbatim>\<open>world.txt\<close>; and a freshly installed world with no templates directory.
\<close>

definition demo_world :: world where
  "demo_world =
     \<lparr>files =
        [''/ext/out/templates/greet.js'' \<mapsto> ''module.exports = greet'',
         ''/ext/out/templates/boom.js'' \<mapsto> ''module.exports = boom'',
         ''/ext/out/templates/broken.js'' \<mapsto> ''module.exports = }'',
         ''/ext/out/templates/note.txt'' \<mapsto> ''a note'',
         ''/ext/out/templates/default.js'' \<mapsto> [],
         ''/home/dev/project/world.txt'' \<mapsto> ''old content''],
      dirs = {''/ext/out/templates'', ''/home/dev/project''},
      savedState = Map.empty,
      logged = []\<rparr>"

definition fresh_world :: world where
  "fresh_world =
     \<lparr>files = Map.empty, dirs = {''/ext/out''},
      savedState = [''defaultTemplate'' \<mapsto> ''module.exports = skeleton''], logged = []\<rparr>"

text \<open>
  An installation whose template files cannot be opened for reading, and a world in which
  the developer has written a \<^verbatim>\<open>default.js\<close> of their own and nothing is saved yet.
\<close>

definition read_denied :: "world \<Rightarrow> string \<Rightarrow> string option" where
  "read_denied w p = Some ''EACCES: permission denied, open''"

definition unreadable_env :: env where
  "unreadable_env = demo_env\<lparr>read_refused := read_denied\<rparr>"

definition seeded_world :: world where
  "seeded_world =
     \<lparr>files = [''/ext/out/templates/default.js'' \<mapsto> ''module.exports = custom''],
      dirs = {''/ext/out'', ''/ext/out/templates''},
      savedState = Map.empty, logged = []\<rparr>"

definition template_of :: "string \<Rightarrow> TTemplate" where
  "template_of n =
     \<lparr>name = n, filename = n @ ''.js'', path = ''/ext/out/templates/'' @ n @ ''.js''\<rparr>"

section \<open>Facts shared by the proofs\<close>

lemma log_keeps_fs [simp]:
  "files (ContextManager_log w msg level) = files w"
  "dirs (ContextManager_log w msg level) = dirs w"
  "savedState (ContextManager_log w msg level) = savedState w"
  by (simp_all add: ContextManager_log_def)

lemma existsSync_log [simp]:
  "existsSync (ContextManager_log w msg level) p = existsSync w p"
  by (simp add: existsSync_def split: option.splits)

lemma render_catch_fs [simp]:
  "files (snd (render_catch w ex)) = files w"
  "dirs (snd (render_catch w ex)) = dirs w"
  by (simp_all add: render_catch_def Let_def)

lemma render_catch_fst:
  "fst (render_catch w ex) =
     Inl (JS_error Error_class
            (if instanceof_SyntaxError ex then message ex else generic_render_message))"
  by (simp add: render_catch_def Let_def)

lemma renderTemplateContent_fs:
  "files (snd (renderTemplateContent e w t options)) = files w \<and>
   dirs (snd (renderTemplateContent e w t options)) = dirs w"
  by (simp add: renderTemplateContent_def split: sum.splits)

lemma demo_templatesDirPath: "templatesDirPath demo_env = ''/ext/out/templates''"
  by (simp add: templatesDirPath_def Configuration_read_def demo_env_def posix_join_def
      posix_normalize_def Let_def)

lemma readonly_templatesDirPath: "templatesDirPath readonly_env = ''/ext/out/templates''"
  by (simp add: templatesDirPath_def Configuration_read_def demo_env_def readonly_env_def
      posix_join_def posix_normalize_def Let_def)

lemma demo_join_templates:
  "posix_join ''/ext/out/templates'' ''greet.js'' = ''/ext/out/templates/greet.js''"
  "posix_join ''/ext/out/templates'' ''boom.js'' = ''/ext/out/templates/boom.js''"
  "posix_join ''/ext/out/templates'' ''broken.js'' = ''/ext/out/templates/broken.js''"
  "posix_join ''/ext/out/templates'' ''note.js'' = ''/ext/out/templates/note.js''"
  "posix_join ''/ext/out/templates'' ''ghost.js'' = ''/ext/out/templates/ghost.js''"
  "posix_join ''/ext/out/templates'' ''default.js'' = ''/ext/out/templates/default.js''"
  "posix_join ''/ext/out/templates'' ''note.txt'' = ''/ext/out/templates/note.txt''"
  "posix_join ''/home/dev/project'' ''world.txt'' = ''/home/dev/project/world.txt''"
  by (simp_all add: posix_join_def posix_normalize_def Let_def)

lemma demo_existsTemplate:
  "existsTemplate demo_env demo_world ''greet''"
  "existsTemplate demo_env demo_world ''boom''"
  "existsTemplate demo_env demo_world ''broken''"
  "existsTemplate demo_env demo_world ''default''"
  "\<not> existsTemplate demo_env demo_world ''note''"
  by (simp_all add: existsTemplate_def templateFilePath_def demo_templatesDirPath
      TEMPLATE_EXTENSION_def)
     (simp_all add: demo_env_def demo_join_templates existsSync_def demo_world_def)

lemma demo_existsSync:
  "existsSync demo_world ''/home/dev/project''"
  "\<not> existsSync demo_world ''/home/dev/missing''"
  "existsSync demo_world ''/ext/out/templates/note.txt''"
  by (simp_all add: existsSync_def demo_world_def)

lemma template_of_simps [simp]:
  "name (template_of n) = n"
  "filename (template_of n) = n @ ''.js''"
  "path (template_of n) = ''/ext/out/templates/'' @ n @ ''.js''"
  by (simp_all add: template_of_def)

lemma demo_env_simps [simp]:
  "path_join demo_env = posix_join"
  "path_basename demo_env = posix_basename"
  "path_basename_ext demo_env = posix_basename_ext"
  "path_extname demo_env = posix_extname"
  "require demo_env = demo_require"
  "readdir demo_env = demo_readdir"
  "mkdir_refused demo_env = never_refused"
  "write_refused demo_env = never_refused"
  "read_refused demo_env = never_refused"
  by (simp_all add: demo_env_def)

lemma posix_stem_demo:
  "posix_extname ''world.txt'' = ''.txt''"
  "posix_basename_ext ''world.txt'' ''.txt'' = ''world''"
  "posix_extname ''note.txt'' = ''.txt''"
  "posix_basename_ext ''note.txt'' ''.txt'' = ''note''"
  by (simp_all add: posix_extname_def posix_basename_ext_def last_component_def Let_def)


lemma createNewFileBasedOnTemplate_unfold:
  "createNewFileBasedOnTemplate e w template newFileName createFileDirectoryPath =
     (let rendered = renderTemplateContent e w template
                       (templateOptions e newFileName createFileDirectoryPath);
          dest = path_join e createFileDirectoryPath newFileName
      in if \<not> existsTemplate e w (name template)
         then (Inl (JS_error Error_class inexistent_template_message),
               ContextManager_log w inexistent_template_message ''warn'')
         else if \<not> existsSync w createFileDirectoryPath
         then (Inl (JS_error Error_class directory_missing_message),
               ContextManager_log w directory_missing_message ''warn'')
         else (case fst rendered of
                 Inl ex \<Rightarrow> (Inl ex, snd rendered)
               | Inr content \<Rightarrow>
                   (case write_refused e (snd rendered) dest of
                      Some m \<Rightarrow> (Inl (JS_error Error_class m), snd rendered)
                    | None \<Rightarrow> (Inr dest, (snd rendered)\<lparr>files := (files (snd rendered))(dest \<mapsto> content)\<rparr>))))"
  by (cases "renderTemplateContent e w template
                       (templateOptions e newFileName createFileDirectoryPath)")
     (simp add: createNewFileBasedOnTemplate_def Let_def writeFileSync_def
        split: sum.splits option.splits)

lemma renderTemplateContent_success:
  assumes "fst (renderTemplateContent e w template options) = Inr content"
  shows "\<exists>templateRender. require e (path template) = Inr templateRender
           \<and> templateRender options = Inr content"
proof (cases "require e (path template)")
  case (Inl ex)
  with assms show ?thesis by (simp add: renderTemplateContent_def render_catch_fst)
next
  case (Inr templateRender)
  show ?thesis
  proof (cases "templateRender options")
    case (Inl thrown)
    with Inr assms show ?thesis
      by (cases "toString thrown") (simp_all add: renderTemplateContent_def render_catch_fst)
  next
    case (Inr produced)
    with \<open>require e (path template) = Inr templateRender\<close> assms show ?thesis
      by (simp add: renderTemplateContent_def)
  qed
qed

lemma readonly_env_simps [simp]:
  "path_join readonly_env = posix_join"
  "mkdir_refused readonly_env = permission_denied"
  "write_refused readonly_env = never_refused"
  by (simp_all add: readonly_env_def demo_env_def)

lemma fresh_world_no_templates_dir:
  "\<not> existsSync fresh_world ''/ext/out/templates''"
  "\<not> existsSync fresh_world ''/ext/out/templates/greet.js''"
  "\<not> existsSync fresh_world ''/ext/out/templates/default.js''"
  by (simp_all add: existsSync_def fresh_world_def)

lemma createTemplatesDirIfNotExists_cases:
  "createTemplatesDirIfNotExists e w =
     (if existsTemplatesDir e w
      then (Inr (), ContextManager_log w
              (''Templates Directory created on path: '' @ templatesDirPath e @ ''.'') ''info'')
      else (case mkdir_refused e w (templatesDirPath e) of
              Some m \<Rightarrow> (Inl (JS_error Error_class dir_creation_message),
                         ContextManager_log w dir_creation_message ''error'')
            | None \<Rightarrow> (Inr (), ContextManager_log (w\<lparr>dirs := insert (templatesDirPath e) (dirs w)\<rparr>)
                (''Templates Directory created on path: '' @ templatesDirPath e @ ''.'') ''info'')))"
  by (simp add: createTemplatesDirIfNotExists_def mkdirSync_def split: option.splits)

lemma createFileTemplate_cases:
  "createFileTemplate e w templateName content =
     (let made = createTemplatesDirIfNotExists e w;
          target = templateFilePath e templateName
      in if existsTemplate e w templateName
         then (Inl (JS_error Error_class name_collision_message),
               ContextManager_log w name_collision_message ''warn'')
         else (case fst made of
                 Inl ex \<Rightarrow> (Inl ex, snd made)
               | Inr u \<Rightarrow>
                   (case write_refused e (snd made) target of
                      Some m \<Rightarrow> (Inl (JS_error Error_class m), snd made)
                    | None \<Rightarrow> (Inr target,
                               (snd made)\<lparr>files := (files (snd made))(target \<mapsto> content)\<rparr>))))"
  by (cases "createTemplatesDirIfNotExists e w")
     (simp add: createFileTemplate_def Let_def writeFileSync_def split: sum.splits option.splits)

lemma createTemplatesDirIfNotExists_succeeds:
  assumes "existsTemplatesDir e w \<or> mkdir_refused e w (templatesDirPath e) = None"
  shows "fst (createTemplatesDirIfNotExists e w) = Inr ()"
  using assms by (auto simp: createTemplatesDirIfNotExists_cases)

lemma demo_templateFilePath:
  "templateFilePath demo_env ''greet'' = ''/ext/out/templates/greet.js''"
  "templateFilePath demo_env ''default'' = ''/ext/out/templates/default.js''"
  "templateFilePath readonly_env ''greet'' = ''/ext/out/templates/greet.js''"
  by (simp_all add: templateFilePath_def demo_templatesDirPath readonly_templatesDirPath
      TEMPLATE_EXTENSION_def demo_join_templates)

lemma map_of_Map_set: "map_of (Map_set m k v) = (map_of m)(k \<mapsto> v)"
  by (induction m k v rule: Map_set.induct) (auto simp: fun_eq_iff)

lemma keys_Map_set_absent:
  "map_of m k = None \<Longrightarrow> map fst (Map_set m k v) = map fst m @ [k]"
  by (induction m k v rule: Map_set.induct) (auto split: if_splits)

lemma map_of_add_template_file:
  "map_of (add_template_file e d m f) k =
     (case map_of m k of
        Some t \<Rightarrow> Some t
      | None \<Rightarrow>
          if path_basename_ext e f (path_extname e f) = k
          then Some \<lparr>name = k, filename = f, path = path_join e d f\<rparr>
          else None)"
  by (auto simp: add_template_file_def Let_def Map_has_def map_of_Map_set split: option.splits)

lemma distinct_add_template_file:
  "distinct (map fst m) \<Longrightarrow> distinct (map fst (add_template_file e d m f))"
  by (auto simp: add_template_file_def Let_def Map_has_def keys_Map_set_absent
      map_of_eq_None_iff)

lemma map_of_forEach_template_file:
  "map_of (forEach_template_file e d m fs) k =
     (case map_of m k of
        Some t \<Rightarrow> Some t
      | None \<Rightarrow>
          map_option (\<lambda>f. \<lparr>name = k, filename = f, path = path_join e d f\<rparr>)
            (find (\<lambda>f. path_basename_ext e f (path_extname e f) = k) fs))"
proof (induction fs arbitrary: m)
  case Nil
  show ?case by (simp split: option.splits)
next
  case (Cons f fs)
  show ?case
    by (simp add: Cons.IH map_of_add_template_file split: option.splits)
qed

lemma distinct_forEach_template_file:
  "distinct (map fst m) \<Longrightarrow> distinct (map fst (forEach_template_file e d m fs))"
  by (induction fs arbitrary: m) (simp_all add: distinct_add_template_file)

lemma find_as_filter:
  "find P xs = (case filter P xs of [] \<Rightarrow> None | x # rest \<Rightarrow> Some x)"
  by (induction xs) simp_all

lemma posix_stem_abc:
  "posix_basename_ext ''a.ext'' (posix_extname ''a.ext'') = ''a''"
  "posix_basename_ext ''b.ext'' (posix_extname ''b.ext'') = ''b''"
  "posix_basename_ext ''a.ext2'' (posix_extname ''a.ext2'') = ''a''"
  by (simp_all add: posix_extname_def posix_basename_ext_def last_component_def Let_def)

lemma unreadable_read_refused: "read_refused unreadable_env = read_denied"
  by (simp add: unreadable_env_def)

lemma unreadable_templateFilePath:
  "templateFilePath unreadable_env ''default'' = ''/ext/out/templates/default.js''"
  by (simp add: templateFilePath_def templatesDirPath_def Configuration_read_def
      unreadable_env_def demo_env_def TEMPLATE_EXTENSION_def posix_join_def
      posix_normalize_def Let_def)

section \<open>Creating a file from a template that does not exist\<close>

text \<open>
  Claim C4. When \<^verbatim>\<open>template.name\<close> does not resolve to an existing template file at
  the time of the call, \<^verbatim>\<open>createNewFileBasedOnTemplate\<close> fails with the error
  \<^verbatim>\<open>Inexistent template.\<close> and writes nothing: the files and the directories after the
  call are those before it.
\<close>

theorem createNewFileBasedOnTemplate_inexistent_template:
  assumes "\<not> existsTemplate e w (name template)"
  shows "fst (createNewFileBasedOnTemplate e w template newFileName createFileDirectoryPath)
           = Inl (JS_error Error_class ''Inexistent template.'')
         \<and> files (snd (createNewFileBasedOnTemplate e w template newFileName createFileDirectoryPath))
           = files w
         \<and> dirs (snd (createNewFileBasedOnTemplate e w template newFileName createFileDirectoryPath))
           = dirs w"
  using assms by (simp add: createNewFileBasedOnTemplate_def inexistent_template_message_def)

theorem createNewFileBasedOnTemplate_inexistent_template_witness:
  "\<not> existsTemplate demo_env demo_world (name (template_of ''ghost''))
   \<and> fst (createNewFileBasedOnTemplate demo_env demo_world (template_of ''ghost'')
            ''world.txt'' ''/home/dev/project'')
       = Inl (JS_error Error_class ''Inexistent template.'')
   \<and> files (snd (createNewFileBasedOnTemplate demo_env demo_world (template_of ''ghost'')
            ''world.txt'' ''/home/dev/project'')) ''/home/dev/project/world.txt''
       = Some ''old content''"
proof -
  have h: "\<not> existsTemplate demo_env demo_world (name (template_of ''ghost''))"
    by (simp add: existsTemplate_def templateFilePath_def demo_templatesDirPath
        TEMPLATE_EXTENSION_def template_of_def existsSync_def demo_world_def)
       (simp add: demo_env_def demo_join_templates)
  have "files demo_world ''/home/dev/project/world.txt'' = Some ''old content''"
    by (simp add: demo_world_def)
  with h createNewFileBasedOnTemplate_inexistent_template
         [OF h, of "''world.txt''" "''/home/dev/project''"]
  show ?thesis by simp
qed

section \<open>Creating a file in a directory that does not exist\<close>

text \<open>
  Claim C5. With an existing template and a target directory that is absent,
  \<^verbatim>\<open>createNewFileBasedOnTemplate\<close> fails with the error
  \<^verbatim>\<open>The directory to create a file not exists.\<close> and writes nothing.
\<close>

theorem createNewFileBasedOnTemplate_directory_missing:
  assumes "existsTemplate e w (name template)"
    and "\<not> existsSync w createFileDirectoryPath"
  shows "fst (createNewFileBasedOnTemplate e w template newFileName createFileDirectoryPath)
           = Inl (JS_error Error_class ''The directory to create a file not exists.'')
         \<and> files (snd (createNewFileBasedOnTemplate e w template newFileName createFileDirectoryPath))
           = files w
         \<and> dirs (snd (createNewFileBasedOnTemplate e w template newFileName createFileDirectoryPath))
           = dirs w"
  using assms
  by (simp add: createNewFileBasedOnTemplate_def directory_missing_message_def Let_def)

theorem createNewFileBasedOnTemplate_directory_missing_witness:
  "existsTemplate demo_env demo_world (name (template_of ''greet''))
   \<and> \<not> existsSync demo_world ''/home/dev/missing''
   \<and> fst (createNewFileBasedOnTemplate demo_env demo_world (template_of ''greet'')
            ''world.txt'' ''/home/dev/missing'')
       = Inl (JS_error Error_class ''The directory to create a file not exists.'')
   \<and> files (snd (createNewFileBasedOnTemplate demo_env demo_world (template_of ''greet'')
            ''world.txt'' ''/home/dev/missing'')) = files demo_world"
proof -
  have h1: "existsTemplate demo_env demo_world (name (template_of ''greet''))"
    by (simp add: demo_existsTemplate)
  have h2: "\<not> existsSync demo_world ''/home/dev/missing''"
    by (rule demo_existsSync)
  from createNewFileBasedOnTemplate_directory_missing [OF h1 h2, of "''world.txt''"] h1 h2
  show ?thesis by simp
qed

section \<open>A render error leaves the destination untouched\<close>

text \<open>
  Claim C9. Whenever the renderer raises, because the module at \<^verbatim>\<open>template.path\<close>
  cannot be loaded or because its render function throws on the options of this call,
  \<^verbatim>\<open>createNewFileBasedOnTemplate\<close> fails and writes nothing: the files and
  directories are unchanged, so nothing is written at \<^verbatim>\<open>join(targetDir, newFileName)\<close>.
  When the template and the target directory exist, the error of the call is the
  renderer's, raised before \<^verbatim>\<open>writeFileSync\<close> is reached.
\<close>

theorem render_error_writes_nothing:
  assumes "require e (path template) = Inl ex
           \<or> (\<exists>templateRender. require e (path template) = Inr templateRender
                \<and> templateRender (templateOptions e newFileName createFileDirectoryPath) = Inl ex)"
  shows "(\<exists>msg. fst (createNewFileBasedOnTemplate e w template newFileName createFileDirectoryPath)
                  = Inl (JS_error Error_class msg))
         \<and> files (snd (createNewFileBasedOnTemplate e w template newFileName createFileDirectoryPath))
           = files w
         \<and> dirs (snd (createNewFileBasedOnTemplate e w template newFileName createFileDirectoryPath))
           = dirs w
         \<and> (existsTemplate e w (name template) \<and> existsSync w createFileDirectoryPath
              \<longrightarrow> fst (createNewFileBasedOnTemplate e w template newFileName createFileDirectoryPath)
                   = fst (renderTemplateContent e w template
                            (templateOptions e newFileName createFileDirectoryPath)))"
proof -
  let ?opts = "templateOptions e newFileName createFileDirectoryPath"
  obtain r w1 where r: "renderTemplateContent e w template ?opts = (r, w1)"
    by (cases "renderTemplateContent e w template ?opts")
  from assms have "\<exists>msg. fst (renderTemplateContent e w template ?opts) = Inl (JS_error Error_class msg)"
    by (auto simp: renderTemplateContent_def render_catch_fst split: sum.splits)
  with r obtain msg where msg: "r = Inl (JS_error Error_class msg)" by auto
  from renderTemplateContent_fs [of e w template ?opts] r
  have fs: "files w1 = files w" "dirs w1 = dirs w" by simp_all
  show ?thesis
    using r msg fs
    by (simp add: createNewFileBasedOnTemplate_def Let_def inexistent_template_message_def
        directory_missing_message_def)
qed

theorem render_error_writes_nothing_witness:
  "require demo_env (path (template_of ''boom'')) = Inr boom
   \<and> boom (templateOptions demo_env ''world.txt'' ''/home/dev/project'')
       = Inl (JS_error Error_class ''boom'')
   \<and> fst (createNewFileBasedOnTemplate demo_env demo_world (template_of ''boom'')
            ''world.txt'' ''/home/dev/project'')
       = Inl (JS_error Error_class ''Your template has sintax errors: Error: boom'')
   \<and> files (snd (createNewFileBasedOnTemplate demo_env demo_world (template_of ''boom'')
            ''world.txt'' ''/home/dev/project'')) ''/home/dev/project/world.txt''
       = Some ''old content''"
proof -
  have h1: "require demo_env (path (template_of ''boom'')) = Inr boom"
    by (simp add: demo_require_def)
  have h2: "boom (templateOptions demo_env ''world.txt'' ''/home/dev/project'')
              = Inl (JS_error Error_class ''boom'')"
    by (simp add: boom_def)
  have h: "require demo_env (path (template_of ''boom'')) = Inl (JS_error Error_class ''boom'')
           \<or> (\<exists>templateRender. require demo_env (path (template_of ''boom'')) = Inr templateRender
                \<and> templateRender (templateOptions demo_env ''world.txt'' ''/home/dev/project'')
                    = Inl (JS_error Error_class ''boom''))"
    using h1 h2 by simp
  have r: "fst (renderTemplateContent demo_env demo_world (template_of ''boom'')
                 (templateOptions demo_env ''world.txt'' ''/home/dev/project''))
             = Inl (JS_error Error_class ''Your template has sintax errors: Error: boom'')"
    using h1 h2 by (simp add: renderTemplateContent_def render_catch_fst syntax_prefix_def)
  have old: "files demo_world ''/home/dev/project/world.txt'' = Some ''old content''"
    by (simp add: demo_world_def)
  from render_error_writes_nothing [OF h, of demo_world] h1 h2 r old
  show ?thesis
    by (simp add: demo_existsTemplate demo_existsSync)
qed

section \<open>A successful call writes what the template produced\<close>

text \<open>
  Claim C6. Every successful call of \<^verbatim>\<open>createNewFileBasedOnTemplate\<close> returns the path
  \<^verbatim>\<open>join(targetDir, newFileName)\<close>, and the file at that path then holds exactly the
  string that the render function of the module at \<^verbatim>\<open>template.path\<close> produced for
  the options of the call; no other file and no directory changes. The destination is not
  looked at before the write: when the template and the target directory exist, the
  module loads, its render function returns a string and the write is not refused, the
  call succeeds and the destination holds that string whatever was there before.
\<close>

theorem createNewFileBasedOnTemplate_writes_rendered_content:
  "(createNewFileBasedOnTemplate e w template newFileName createFileDirectoryPath = (Inr p, w')
      \<longrightarrow> p = path_join e createFileDirectoryPath newFileName
          \<and> (\<exists>templateRender content.
                require e (path template) = Inr templateRender
                \<and> templateRender (templateOptions e newFileName createFileDirectoryPath) = Inr content
                \<and> files w' = (files w)(p \<mapsto> content)
                \<and> dirs w' = dirs w))
   \<and> (existsTemplate e w (name template) \<and> existsSync w createFileDirectoryPath
        \<and> require e (path template) = Inr render
        \<and> render (templateOptions e newFileName createFileDirectoryPath) = Inr produced
        \<and> write_refused e
             (snd (renderTemplateContent e w template
                     (templateOptions e newFileName createFileDirectoryPath)))
             (path_join e createFileDirectoryPath newFileName) = None
      \<longrightarrow> fst (createNewFileBasedOnTemplate e w template newFileName createFileDirectoryPath)
            = Inr (path_join e createFileDirectoryPath newFileName)
          \<and> files (snd (createNewFileBasedOnTemplate e w template newFileName
                           createFileDirectoryPath))
            = (files w)(path_join e createFileDirectoryPath newFileName \<mapsto> produced))"
proof (intro conjI impI)
  let ?opts = "templateOptions e newFileName createFileDirectoryPath"
  let ?dest = "path_join e createFileDirectoryPath newFileName"
  let ?r = "renderTemplateContent e w template ?opts"
  assume ok: "createNewFileBasedOnTemplate e w template newFileName createFileDirectoryPath
                = (Inr p, w')"
  then have "\<exists>content. fst ?r = Inr content \<and> p = ?dest
      \<and> w' = (snd ?r)\<lparr>files := (files (snd ?r))(?dest \<mapsto> content)\<rparr>"
    unfolding createNewFileBasedOnTemplate_unfold Let_def
    by (auto split: if_splits sum.splits option.splits)
  then obtain content where c: "fst ?r = Inr content"
    and p: "p = ?dest"
    and w': "w' = (snd ?r)\<lparr>files := (files (snd ?r))(?dest \<mapsto> content)\<rparr>"
    by blast
  from renderTemplateContent_success [OF c] obtain templateRender where
    tr: "require e (path template) = Inr templateRender" "templateRender ?opts = Inr content"
    by blast
  from w' p renderTemplateContent_fs [of e w template ?opts]
  have "files w' = (files w)(p \<mapsto> content)" "dirs w' = dirs w" by simp_all
  with tr show "\<exists>templateRender content.
                require e (path template) = Inr templateRender
                \<and> templateRender ?opts = Inr content
                \<and> files w' = (files w)(p \<mapsto> content)
                \<and> dirs w' = dirs w"
    by blast
  from p show "p = ?dest" .
next
  let ?opts = "templateOptions e newFileName createFileDirectoryPath"
  let ?dest = "path_join e createFileDirectoryPath newFileName"
  let ?r = "renderTemplateContent e w template ?opts"
  assume h: "existsTemplate e w (name template) \<and> existsSync w createFileDirectoryPath
        \<and> require e (path template) = Inr render
        \<and> render ?opts = Inr produced
        \<and> write_refused e (snd ?r) ?dest = None"
  then have r: "fst ?r = Inr produced"
    by (simp add: renderTemplateContent_def)
  from h r have res: "createNewFileBasedOnTemplate e w template newFileName createFileDirectoryPath
      = (Inr ?dest, (snd ?r)\<lparr>files := (files (snd ?r))(?dest \<mapsto> produced)\<rparr>)"
    unfolding createNewFileBasedOnTemplate_unfold Let_def by simp
  from res show "fst (createNewFileBasedOnTemplate e w template newFileName createFileDirectoryPath)
            = Inr ?dest" by simp
  from res renderTemplateContent_fs [of e w template ?opts]
  show "files (snd (createNewFileBasedOnTemplate e w template newFileName
                           createFileDirectoryPath))
            = (files w)(?dest \<mapsto> produced)" by simp
qed

theorem createNewFileBasedOnTemplate_writes_rendered_content_witness:
  "files demo_world ''/home/dev/project/world.txt'' = Some ''old content''
   \<and> greet (templateOptions demo_env ''world.txt'' ''/home/dev/project'') = Inr ''Hello, world''
   \<and> fst (createNewFileBasedOnTemplate demo_env demo_world (template_of ''greet'')
            ''world.txt'' ''/home/dev/project'') = Inr ''/home/dev/project/world.txt''
   \<and> files (snd (createNewFileBasedOnTemplate demo_env demo_world (template_of ''greet'')
            ''world.txt'' ''/home/dev/project'')) ''/home/dev/project/world.txt''
       = Some ''Hello, world''"
proof -
  have old: "files demo_world ''/home/dev/project/world.txt'' = Some ''old content''"
    by (simp add: demo_world_def)
  have g: "greet (templateOptions demo_env ''world.txt'' ''/home/dev/project'') = Inr ''Hello, world''"
    by (simp add: greet_def templateOptions_def posix_stem_demo)
  have rq: "require demo_env (path (template_of ''greet'')) = Inr greet"
    by (simp add: demo_require_def)
  have wr: "write_refused demo_env
             (snd (renderTemplateContent demo_env demo_world (template_of ''greet'')
                     (templateOptions demo_env ''world.txt'' ''/home/dev/project'')))
             (path_join demo_env ''/home/dev/project'' ''world.txt'') = None"
    by (simp add: never_refused_def)
  have ex: "existsTemplate demo_env demo_world (name (template_of ''greet''))"
    by (simp add: demo_existsTemplate)
  from createNewFileBasedOnTemplate_writes_rendered_content
         [of demo_env demo_world "template_of ''greet''" "''world.txt''" "''/home/dev/project''"
             "''/home/dev/project/world.txt''"
             "snd (createNewFileBasedOnTemplate demo_env demo_world (template_of ''greet'')
                     ''world.txt'' ''/home/dev/project'')"
             greet "''Hello, world''"]
       old g rq wr ex demo_existsSync(1)
  show ?thesis
    by (simp add: demo_join_templates)
qed

section \<open>The re-validation looks for the .js file only\<close>

text \<open>
  Claim C10. The existence test of \<^verbatim>\<open>createNewFileBasedOnTemplate\<close> looks at one path
  only, the templates directory joined with \<^verbatim>\<open>template.name\<close> followed by
  \<^verbatim>\<open>.js\<close>; the fields \<^verbatim>\<open>filename\<close> and \<^verbatim>\<open>path\<close> of the template play no part
  in it. So for a catalog entry made from a file with another extension, with no file of
  the same name and the extension \<^verbatim>\<open>.js\<close>, the call fails with
  \<^verbatim>\<open>Inexistent template.\<close> although the file at \<^verbatim>\<open>template.path\<close> exists.
\<close>

theorem revalidation_checks_js_file_only:
  "existsTemplate e w (name template)
     = existsSync w (path_join e (templatesDirPath e) (name template @ ''.js''))
   \<and> (\<not> existsSync w (path_join e (templatesDirPath e) (name template @ ''.js''))
        \<longrightarrow> fst (createNewFileBasedOnTemplate e w template newFileName createFileDirectoryPath)
            = Inl (JS_error Error_class ''Inexistent template.''))"
  by (simp add: createNewFileBasedOnTemplate_def existsTemplate_def templateFilePath_def
      TEMPLATE_EXTENSION_def inexistent_template_message_def)

theorem revalidation_checks_js_file_only_witness:
  "forEach_template_file demo_env ''/ext/out/templates'' [] [''note.txt'']
     = [(''note'', \<lparr>name = ''note'', filename = ''note.txt'',
                    path = ''/ext/out/templates/note.txt''\<rparr>)]
   \<and> posix_extname ''note.txt'' = ''.txt''
   \<and> existsSync demo_world ''/ext/out/templates/note.txt''
   \<and> \<not> existsSync demo_world ''/ext/out/templates/note.js''
   \<and> fst (createNewFileBasedOnTemplate demo_env demo_world
            \<lparr>name = ''note'', filename = ''note.txt'', path = ''/ext/out/templates/note.txt''\<rparr>
            ''world.txt'' ''/home/dev/project'')
       = Inl (JS_error Error_class ''Inexistent template.'')"
proof -
  have cat: "forEach_template_file demo_env ''/ext/out/templates'' [] [''note.txt'']
     = [(''note'', \<lparr>name = ''note'', filename = ''note.txt'',
                    path = ''/ext/out/templates/note.txt''\<rparr>)]"
    by (simp add: add_template_file_def Map_has_def posix_stem_demo demo_join_templates Let_def)
  have no: "\<not> existsSync demo_world ''/ext/out/templates/note.js''"
    by (simp add: existsSync_def demo_world_def)
  from revalidation_checks_js_file_only
         [of demo_env demo_world
             "\<lparr>name = ''note'', filename = ''note.txt'', path = ''/ext/out/templates/note.txt''\<rparr>"
             "''world.txt'' " "''/home/dev/project''"]
       cat no demo_existsSync(3)
  show ?thesis
    by (simp add: demo_templatesDirPath demo_join_templates posix_stem_demo)
qed

section \<open>Creating the templates directory\<close>

text \<open>
  Claim C8, as the code has it. \<^verbatim>\<open>createTemplatesDirIfNotExists\<close> is idempotent: when
  the directory exists the call succeeds and changes neither files nor directories, and
  after any successful call the directory exists, so that a second call succeeds without
  effect. When the directory is absent and its creation is refused, the call fails with
  the fixed message \<^verbatim>\<open>A error ocurred when trying create a templates directory.\<close>,
  whatever the error of the operating system was, and changes nothing.
\<close>

theorem createTemplatesDirIfNotExists_idempotent_fixed_message:
  "(existsTemplatesDir e w
      \<longrightarrow> fst (createTemplatesDirIfNotExists e w) = Inr ()
          \<and> files (snd (createTemplatesDirIfNotExists e w)) = files w
          \<and> dirs (snd (createTemplatesDirIfNotExists e w)) = dirs w)
   \<and> (fst (createTemplatesDirIfNotExists e w) = Inr ()
      \<longrightarrow> existsTemplatesDir e (snd (createTemplatesDirIfNotExists e w))
          \<and> fst (createTemplatesDirIfNotExists e (snd (createTemplatesDirIfNotExists e w))) = Inr ()
          \<and> files (snd (createTemplatesDirIfNotExists e (snd (createTemplatesDirIfNotExists e w))))
              = files (snd (createTemplatesDirIfNotExists e w))
          \<and> dirs (snd (createTemplatesDirIfNotExists e (snd (createTemplatesDirIfNotExists e w))))
              = dirs (snd (createTemplatesDirIfNotExists e w)))
   \<and> (\<not> existsTemplatesDir e w \<and> mkdir_refused e w (templatesDirPath e) = Some os_error
      \<longrightarrow> fst (createTemplatesDirIfNotExists e w)
            = Inl (JS_error Error_class ''A error ocurred when trying create a templates directory.'')
          \<and> files (snd (createTemplatesDirIfNotExists e w)) = files w
          \<and> dirs (snd (createTemplatesDirIfNotExists e w)) = dirs w)"
proof (intro conjI impI)
  assume "existsTemplatesDir e w"
  then show "fst (createTemplatesDirIfNotExists e w) = Inr ()"
    "files (snd (createTemplatesDirIfNotExists e w)) = files w"
    "dirs (snd (createTemplatesDirIfNotExists e w)) = dirs w"
    by (simp_all add: createTemplatesDirIfNotExists_cases)
next
  assume ok: "fst (createTemplatesDirIfNotExists e w) = Inr ()"
  let ?w1 = "snd (createTemplatesDirIfNotExists e w)"
  from ok show ex: "existsTemplatesDir e ?w1"
    by (auto simp: createTemplatesDirIfNotExists_cases existsTemplatesDir_def existsSync_def
        split: if_splits option.splits)
  then show "fst (createTemplatesDirIfNotExists e ?w1) = Inr ()"
    "files (snd (createTemplatesDirIfNotExists e ?w1)) = files ?w1"
    "dirs (snd (createTemplatesDirIfNotExists e ?w1)) = dirs ?w1"
    by (simp_all add: createTemplatesDirIfNotExists_cases [of e ?w1])
next
  assume "\<not> existsTemplatesDir e w \<and> mkdir_refused e w (templatesDirPath e) = Some os_error"
  then show "fst (createTemplatesDirIfNotExists e w)
            = Inl (JS_error Error_class ''A error ocurred when trying create a templates directory.'')"
    "files (snd (createTemplatesDirIfNotExists e w)) = files w"
    "dirs (snd (createTemplatesDirIfNotExists e w)) = dirs w"
    by (simp_all add: createTemplatesDirIfNotExists_cases dir_creation_message_def)
qed

theorem createTemplatesDirIfNotExists_idempotent_fixed_message_witness:
  "\<not> existsTemplatesDir readonly_env fresh_world
   \<and> mkdir_refused readonly_env fresh_world (templatesDirPath readonly_env)
       = Some ''EACCES: permission denied, mkdir''
   \<and> fst (createTemplatesDirIfNotExists readonly_env fresh_world)
       = Inl (JS_error Error_class ''A error ocurred when trying create a templates directory.'')
   \<and> dirs (snd (createTemplatesDirIfNotExists readonly_env fresh_world)) = {''/ext/out''}
   \<and> existsTemplatesDir demo_env demo_world
   \<and> fst (createTemplatesDirIfNotExists demo_env demo_world) = Inr ()
   \<and> dirs (snd (createTemplatesDirIfNotExists demo_env demo_world))
       = {''/ext/out/templates'', ''/home/dev/project''}"
proof -
  have h1: "\<not> existsTemplatesDir readonly_env fresh_world"
    by (simp add: existsTemplatesDir_def readonly_templatesDirPath fresh_world_no_templates_dir)
  have h2: "mkdir_refused readonly_env fresh_world (templatesDirPath readonly_env)
       = Some ''EACCES: permission denied, mkdir''"
    by (simp add: permission_denied_def)
  have h3: "existsTemplatesDir demo_env demo_world"
    by (simp add: existsTemplatesDir_def demo_templatesDirPath existsSync_def demo_world_def)
  have d1: "dirs fresh_world = {''/ext/out''}" by (simp add: fresh_world_def)
  have d2: "dirs demo_world = {''/ext/out/templates'', ''/home/dev/project''}"
    by (simp add: demo_world_def)
  from createTemplatesDirIfNotExists_idempotent_fixed_message
         [of readonly_env fresh_world "''EACCES: permission denied, mkdir''"]
       createTemplatesDirIfNotExists_idempotent_fixed_message
         [of demo_env demo_world "''EACCES: permission denied, mkdir''"]
       h1 h2 h3 d1 d2
  show ?thesis by simp
qed

text \<open>
  The claim as stated has the message of the creation error include the underlying error.
  In a read-only installation \<^verbatim>\<open>mkdirSync\<close> fails with
  \<^verbatim>\<open>EACCES: permission denied, mkdir\<close>; the \<^verbatim>\<open>catch\<close> clause drops the caught value,
  and the message thrown does not contain that text.
\<close>

theorem creation_error_omits_os_error:
  "\<not> existsTemplatesDir readonly_env fresh_world
   \<and> fst (mkdirSync readonly_env fresh_world (templatesDirPath readonly_env))
       = Inl (JS_error Error_class ''EACCES: permission denied, mkdir'')
   \<and> fst (createTemplatesDirIfNotExists readonly_env fresh_world)
       = Inl (JS_error Error_class ''A error ocurred when trying create a templates directory.'')
   \<and> \<not> js_includes ''A error ocurred when trying create a templates directory.''
          ''EACCES: permission denied, mkdir''"
proof -
  have h1: "\<not> existsTemplatesDir readonly_env fresh_world"
    by (simp add: existsTemplatesDir_def readonly_templatesDirPath fresh_world_no_templates_dir)
  have h2: "fst (mkdirSync readonly_env fresh_world (templatesDirPath readonly_env))
       = Inl (JS_error Error_class ''EACCES: permission denied, mkdir'')"
    by (simp add: mkdirSync_def permission_denied_def)
  have h3: "fst (createTemplatesDirIfNotExists readonly_env fresh_world)
       = Inl (JS_error Error_class ''A error ocurred when trying create a templates directory.'')"
    using h1 by (simp add: createTemplatesDirIfNotExists_cases permission_denied_def
        dir_creation_message_def)
  have h4: "\<not> js_includes ''A error ocurred when trying create a templates directory.''
          ''EACCES: permission denied, mkdir''"
    by simp
  from h1 h2 h3 h4 show ?thesis by simp
qed

section \<open>Creating a template file\<close>

text \<open>
  Claim C2, as the code has it. For a template name that is not present,
  \<^verbatim>\<open>createFileTemplate\<close> succeeds whenever the templates directory exists or can be
  created and the write of the new file is not refused: it returns the path of the new
  file, the file holds the given content and \<^verbatim>\<open>existsTemplate\<close> is true afterwards. For
  a name that is present it fails with the name-collision error; the test comes before
  any write, and files and directories are unchanged.
\<close>

theorem createFileTemplate_creates_or_collides:
  "(\<not> existsTemplate e w templateName
      \<and> (existsTemplatesDir e w \<or> mkdir_refused e w (templatesDirPath e) = None)
      \<and> write_refused e (snd (createTemplatesDirIfNotExists e w))
            (templateFilePath e templateName) = None
      \<longrightarrow> fst (createFileTemplate e w templateName content)
            = Inr (templateFilePath e templateName)
          \<and> existsTemplate e (snd (createFileTemplate e w templateName content)) templateName
          \<and> files (snd (createFileTemplate e w templateName content))
               (templateFilePath e templateName) = Some content)
   \<and> (existsTemplate e w templateName
      \<longrightarrow> fst (createFileTemplate e w templateName content)
            = Inl (JS_error Error_class
                     ''The template name already exists, please choose other name.'')
          \<and> files (snd (createFileTemplate e w templateName content)) = files w
          \<and> dirs (snd (createFileTemplate e w templateName content)) = dirs w)"
proof (intro conjI impI)
  let ?made = "createTemplatesDirIfNotExists e w"
  let ?target = "templateFilePath e templateName"
  assume h: "\<not> existsTemplate e w templateName
      \<and> (existsTemplatesDir e w \<or> mkdir_refused e w (templatesDirPath e) = None)
      \<and> write_refused e (snd ?made) ?target = None"
  then have made: "fst ?made = Inr ()"
    by (simp add: createTemplatesDirIfNotExists_succeeds)
  with h have res: "createFileTemplate e w templateName content
      = (Inr ?target, (snd ?made)\<lparr>files := (files (snd ?made))(?target \<mapsto> content)\<rparr>)"
    by (simp add: createFileTemplate_cases Let_def)
  from res show "fst (createFileTemplate e w templateName content) = Inr ?target" by simp
  from res show "files (snd (createFileTemplate e w templateName content)) ?target = Some content"
    by simp
  then show "existsTemplate e (snd (createFileTemplate e w templateName content)) templateName"
    by (simp add: existsTemplate_def existsSync_def)
next
  assume "existsTemplate e w templateName"
  then show "fst (createFileTemplate e w templateName content)
            = Inl (JS_error Error_class
                     ''The template name already exists, please choose other name.'')"
    "files (snd (createFileTemplate e w templateName content)) = files w"
    "dirs (snd (createFileTemplate e w templateName content)) = dirs w"
    by (simp_all add: createFileTemplate_cases Let_def name_collision_message_def)
qed

theorem createFileTemplate_creates_or_collides_witness:
  "\<not> existsTemplate demo_env fresh_world ''greet''
   \<and> fst (createFileTemplate demo_env fresh_world ''greet'' ''module.exports = fresh'')
       = Inr ''/ext/out/templates/greet.js''
   \<and> existsTemplate demo_env
        (snd (createFileTemplate demo_env fresh_world ''greet'' ''module.exports = fresh''))
        ''greet''
   \<and> existsTemplate demo_env demo_world ''greet''
   \<and> fst (createFileTemplate demo_env demo_world ''greet'' ''module.exports = fresh'')
       = Inl (JS_error Error_class
                ''The template name already exists, please choose other name.'')
   \<and> files (snd (createFileTemplate demo_env demo_world ''greet'' ''module.exports = fresh''))
        ''/ext/out/templates/greet.js'' = Some ''module.exports = greet''"
proof -
  have h1: "\<not> existsTemplate demo_env fresh_world ''greet''"
    by (simp add: existsTemplate_def demo_templateFilePath fresh_world_no_templates_dir)
  have h2: "mkdir_refused demo_env fresh_world (templatesDirPath demo_env) = None"
    by (simp add: never_refused_def)
  have h3: "write_refused demo_env (snd (createTemplatesDirIfNotExists demo_env fresh_world))
            (templateFilePath demo_env ''greet'') = None"
    by (simp add: never_refused_def)
  have old: "files demo_world ''/ext/out/templates/greet.js'' = Some ''module.exports = greet''"
    by (simp add: demo_world_def)
  from createFileTemplate_creates_or_collides
         [of demo_env fresh_world "''greet''" "''module.exports = fresh''"]
       createFileTemplate_creates_or_collides
         [of demo_env demo_world "''greet''" "''module.exports = fresh''"]
       h1 h2 h3 old demo_existsTemplate(1)
  show ?thesis by (simp add: demo_templateFilePath)
qed

text \<open>
  The claim as stated has the call succeed for every name that is not present. In a
  read-only installation without a templates directory the name \<^verbatim>\<open>greet\<close> is not
  present, \<^verbatim>\<open>createTemplatesDirIfNotExists\<close> throws its creation error, the call fails
  with it, and the template still does not exist afterwards.
\<close>

theorem createFileTemplate_fails_when_directory_cannot_be_created:
  "\<not> existsTemplate readonly_env fresh_world ''greet''
   \<and> fst (createFileTemplate readonly_env fresh_world ''greet'' ''module.exports = fresh'')
       = Inl (JS_error Error_class ''A error ocurred when trying create a templates directory.'')
   \<and> \<not> existsTemplate readonly_env
          (snd (createFileTemplate readonly_env fresh_world ''greet'' ''module.exports = fresh''))
          ''greet''"
proof -
  have h1: "\<not> existsTemplate readonly_env fresh_world ''greet''"
    by (simp add: existsTemplate_def demo_templateFilePath fresh_world_no_templates_dir)
  have h2: "\<not> existsTemplatesDir readonly_env fresh_world"
    by (simp add: existsTemplatesDir_def readonly_templatesDirPath fresh_world_no_templates_dir)
  have made: "createTemplatesDirIfNotExists readonly_env fresh_world
      = (Inl (JS_error Error_class dir_creation_message),
         ContextManager_log fresh_world dir_creation_message ''error'')"
    using h2 by (simp add: createTemplatesDirIfNotExists_cases permission_denied_def)
  have res: "createFileTemplate readonly_env fresh_world ''greet'' ''module.exports = fresh''
      = (Inl (JS_error Error_class dir_creation_message),
         ContextManager_log fresh_world dir_creation_message ''error'')"
    using h1 made by (simp add: createFileTemplate_cases Let_def)
  from h1 res show ?thesis
    by (simp add: dir_creation_message_def existsTemplate_def)
qed

section \<open>The default template skeleton\<close>

text \<open>
  Claim C7, as the code has it. \<^verbatim>\<open>getTemplateRenderEstructure\<close> returns the content of
  the template \<^verbatim>\<open>default\<close> when that file is present, can be read and is not empty; a
  refused read raises the error of the operating system. When no such template is present
  it returns the text saved under \<^verbatim>\<open>defaultTemplate\<close> in the state of
  \<^verbatim>\<open>ContextManager\<close>, provided that text is not empty. In both cases the world is left
  as it was. When the text found, in the file or in the saved state, is empty, the call
  fails with \<^verbatim>\<open>Sorry, Cannot retrieve a template renderer default.\<close> The saved text is
  what the constructor stored: whenever the constructor succeeds, it has saved the
  non-empty text this function returned at that moment, and has touched no file.
\<close>

theorem getTemplateRenderEstructure_default_or_saved_state:
  "(files w (templateFilePath e ''default'') = Some content
      \<and> read_refused e w (templateFilePath e ''default'') = None \<and> content \<noteq> []
      \<longrightarrow> getTemplateRenderEstructure e w = (Inr content, w))
   \<and> (files w (templateFilePath e ''default'') = Some content
      \<and> read_refused e w (templateFilePath e ''default'') = Some os_error
      \<longrightarrow> getTemplateRenderEstructure e w = (Inl (JS_error Error_class os_error), w))
   \<and> (\<not> existsTemplate e w ''default''
        \<and> ContextManager_useState w ''defaultTemplate'' = Some saved \<and> saved \<noteq> []
      \<longrightarrow> getTemplateRenderEstructure e w = (Inr saved, w))
   \<and> (files w (templateFilePath e ''default'') = Some []
      \<and> read_refused e w (templateFilePath e ''default'') = None
      \<longrightarrow> fst (getTemplateRenderEstructure e w)
            = Inl (JS_error Error_class ''Sorry, Cannot retrieve a template renderer default.''))
   \<and> (\<not> existsTemplate e w ''default''
        \<and> ContextManager_useState w ''defaultTemplate'' = Some []
      \<longrightarrow> fst (getTemplateRenderEstructure e w)
            = Inl (JS_error Error_class ''Sorry, Cannot retrieve a template renderer default.''))
   \<and> (fst (constructor e w) = Inr ()
      \<longrightarrow> (\<exists>cached. cached \<noteq> []
            \<and> getTemplateRenderEstructure e w = (Inr cached, w)
            \<and> ContextManager_useState (snd (constructor e w)) ''defaultTemplate'' = Some cached
            \<and> files (snd (constructor e w)) = files w
            \<and> dirs (snd (constructor e w)) = dirs w))"
proof (intro conjI impI)
  let ?p = "templateFilePath e ''default''"
  assume "files w ?p = Some content \<and> read_refused e w ?p = None \<and> content \<noteq> []"
  then show "getTemplateRenderEstructure e w = (Inr content, w)"
    by (simp add: getTemplateRenderEstructure_def existsTemplate_def existsSync_def
        readFileSync_def)
next
  let ?p = "templateFilePath e ''default''"
  assume "files w ?p = Some content \<and> read_refused e w ?p = Some os_error"
  then show "getTemplateRenderEstructure e w = (Inl (JS_error Error_class os_error), w)"
    by (simp add: getTemplateRenderEstructure_def existsTemplate_def existsSync_def
        readFileSync_def)
next
  assume "\<not> existsTemplate e w ''default''
        \<and> ContextManager_useState w ''defaultTemplate'' = Some saved \<and> saved \<noteq> []"
  then show "getTemplateRenderEstructure e w = (Inr saved, w)"
    by (simp add: getTemplateRenderEstructure_def)
next
  let ?p = "templateFilePath e ''default''"
  assume "files w ?p = Some [] \<and> read_refused e w ?p = None"
  then show "fst (getTemplateRenderEstructure e w)
            = Inl (JS_error Error_class ''Sorry, Cannot retrieve a template renderer default.'')"
    by (simp add: getTemplateRenderEstructure_def existsTemplate_def existsSync_def
        readFileSync_def no_default_message_def)
next
  assume "\<not> existsTemplate e w ''default''
        \<and> ContextManager_useState w ''defaultTemplate'' = Some []"
  then show "fst (getTemplateRenderEstructure e w)
            = Inl (JS_error Error_class ''Sorry, Cannot retrieve a template renderer default.'')"
    by (simp add: getTemplateRenderEstructure_def no_default_message_def)
next
  assume ok: "fst (constructor e w) = Inr ()"
  obtain r w1 where g: "getTemplateRenderEstructure e w = (r, w1)"
    by (cases "getTemplateRenderEstructure e w")
  from ok g obtain cached where r: "r = Inr cached"
    by (cases r) (simp_all add: constructor_def)
  from g r have cached: "cached \<noteq> [] \<and> w1 = w"
    by (auto simp: getTemplateRenderEstructure_def split: sum.splits if_splits)
  from g r cached have c: "constructor e w = (Inr (), ContextManager_saveState w ''defaultTemplate'' cached)"
    by (simp add: constructor_def)
  have "cached \<noteq> []
            \<and> getTemplateRenderEstructure e w = (Inr cached, w)
            \<and> ContextManager_useState (snd (constructor e w)) ''defaultTemplate'' = Some cached
            \<and> files (snd (constructor e w)) = files w
            \<and> dirs (snd (constructor e w)) = dirs w"
    using g r cached c
    by (simp add: ContextManager_saveState_def ContextManager_useState_def)
  then show "\<exists>cached. cached \<noteq> []
            \<and> getTemplateRenderEstructure e w = (Inr cached, w)
            \<and> ContextManager_useState (snd (constructor e w)) ''defaultTemplate'' = Some cached
            \<and> files (snd (constructor e w)) = files w
            \<and> dirs (snd (constructor e w)) = dirs w"
    by (rule exI)
qed

theorem getTemplateRenderEstructure_default_or_saved_state_witness:
  "getTemplateRenderEstructure demo_env seeded_world
     = (Inr ''module.exports = custom'', seeded_world)
   \<and> getTemplateRenderEstructure unreadable_env seeded_world
       = (Inl (JS_error Error_class ''EACCES: permission denied, open''), seeded_world)
   \<and> \<not> existsTemplate demo_env fresh_world ''default''
   \<and> getTemplateRenderEstructure demo_env fresh_world
       = (Inr ''module.exports = skeleton'', fresh_world)
   \<and> fst (getTemplateRenderEstructure demo_env demo_world)
       = Inl (JS_error Error_class ''Sorry, Cannot retrieve a template renderer default.'')
   \<and> \<not> existsTemplate demo_env (fresh_world\<lparr>savedState := [''defaultTemplate'' \<mapsto> []]\<rparr>)
          ''default''
   \<and> fst (getTemplateRenderEstructure demo_env
            (fresh_world\<lparr>savedState := [''defaultTemplate'' \<mapsto> []]\<rparr>))
       = Inl (JS_error Error_class ''Sorry, Cannot retrieve a template renderer default.'')
   \<and> fst (constructor demo_env seeded_world) = Inr ()
   \<and> ContextManager_useState (snd (constructor demo_env seeded_world)) ''defaultTemplate''
       = Some ''module.exports = custom''"
proof -
  let ?blank = "fresh_world\<lparr>savedState := [''defaultTemplate'' \<mapsto> []]\<rparr>"
  note p = unreadable_templateFilePath
  have h1: "files seeded_world (templateFilePath demo_env ''default'')
              = Some ''module.exports = custom''"
    by (simp add: demo_templateFilePath seeded_world_def)
  have h1r: "read_refused demo_env seeded_world (templateFilePath demo_env ''default'') = None"
    by (simp add: never_refused_def)
  have h1u: "files seeded_world (templateFilePath unreadable_env ''default'')
              = Some ''module.exports = custom''"
    by (simp add: p seeded_world_def)
  have h1d: "read_refused unreadable_env seeded_world (templateFilePath unreadable_env ''default'')
              = Some ''EACCES: permission denied, open''"
    by (simp add: unreadable_read_refused read_denied_def)
  have h2: "\<not> existsTemplate demo_env fresh_world ''default''"
    by (simp add: existsTemplate_def demo_templateFilePath fresh_world_no_templates_dir)
  have h3: "ContextManager_useState fresh_world ''defaultTemplate''
              = Some ''module.exports = skeleton''"
    by (simp add: ContextManager_useState_def fresh_world_def)
  have h4: "files demo_world (templateFilePath demo_env ''default'') = Some []"
    by (simp add: demo_templateFilePath demo_world_def)
  have h4r: "read_refused demo_env demo_world (templateFilePath demo_env ''default'') = None"
    by (simp add: never_refused_def)
  have h5: "\<not> existsTemplate demo_env ?blank ''default''"
    by (simp add: existsTemplate_def demo_templateFilePath existsSync_def fresh_world_def)
  have h6: "ContextManager_useState ?blank ''defaultTemplate'' = Some []"
    by (simp add: ContextManager_useState_def)
  have first: "getTemplateRenderEstructure demo_env seeded_world
     = (Inr ''module.exports = custom'', seeded_world)"
    using getTemplateRenderEstructure_default_or_saved_state
            [of seeded_world demo_env "''module.exports = custom''"] h1 h1r
    by simp
  then have h7: "fst (constructor demo_env seeded_world) = Inr ()"
    by (simp add: constructor_def)
  from getTemplateRenderEstructure_default_or_saved_state
         [of seeded_world demo_env "''module.exports = custom''" "''EACCES''" "[]"] h7 first
  have saved: "ContextManager_useState (snd (constructor demo_env seeded_world)) ''defaultTemplate''
       = Some ''module.exports = custom''"
    by auto
  from getTemplateRenderEstructure_default_or_saved_state
         [of seeded_world unreadable_env "''module.exports = custom''"
             "''EACCES: permission denied, open''"]
       getTemplateRenderEstructure_default_or_saved_state
         [of fresh_world demo_env "[]" "[]" "''module.exports = skeleton''"]
       getTemplateRenderEstructure_default_or_saved_state
         [of demo_world demo_env "[]" "[]" "[]"]
       getTemplateRenderEstructure_default_or_saved_state
         [of ?blank demo_env "[]" "[]" "[]"]
       first h1u h1d h2 h3 h4 h4r h5 h6 h7 saved
  show ?thesis by simp
qed

text \<open>
  The claim as stated has the function return the content of a present \<^verbatim>\<open>default\<close>
  template, a fixed built-in text when there is none, and a string in every case. Three
  runs show otherwise. The template \<^verbatim>\<open>default.js\<close> of the concrete world is present
  and empty: reading it succeeds, and the function throws. A \<^verbatim>\<open>default.js\<close> that is
  present with content but cannot be opened makes the function throw the error of the
  read. And the fallback is not a fixed text: after the constructor has run beside a
  \<^verbatim>\<open>default.js\<close> written by the developer and that file has been deleted, the function
  returns the content the deleted file had.
\<close>

theorem default_skeleton_is_neither_always_returned_nor_fixed:
  "existsTemplate demo_env demo_world ''default''
   \<and> readFileSync demo_env demo_world (templateFilePath demo_env ''default'') = Inr []
   \<and> fst (getTemplateRenderEstructure demo_env demo_world)
       = Inl (JS_error Error_class ''Sorry, Cannot retrieve a template renderer default.'')
   \<and> existsTemplate unreadable_env seeded_world ''default''
   \<and> files seeded_world ''/ext/out/templates/default.js'' = Some ''module.exports = custom''
   \<and> fst (getTemplateRenderEstructure unreadable_env seeded_world)
       = Inl (JS_error Error_class ''EACCES: permission denied, open'')
   \<and> fst (constructor demo_env seeded_world) = Inr ()
   \<and> \<not> existsTemplate demo_env
          ((snd (constructor demo_env seeded_world))\<lparr>files := Map.empty\<rparr>) ''default''
   \<and> fst (getTemplateRenderEstructure demo_env
            ((snd (constructor demo_env seeded_world))\<lparr>files := Map.empty\<rparr>))
       = Inr ''module.exports = custom''
   \<and> fst (getTemplateRenderEstructure demo_env fresh_world) = Inr ''module.exports = skeleton''"
proof -
  note p = unreadable_templateFilePath
  have a1: "files demo_world ''/ext/out/templates/default.js'' = Some []"
    by (simp add: demo_world_def)
  then have a2: "readFileSync demo_env demo_world (templateFilePath demo_env ''default'') = Inr []"
    by (simp add: readFileSync_def demo_templateFilePath never_refused_def)
  with demo_existsTemplate(4)
  have a3: "fst (getTemplateRenderEstructure demo_env demo_world)
       = Inl (JS_error Error_class ''Sorry, Cannot retrieve a template renderer default.'')"
    by (simp add: getTemplateRenderEstructure_def no_default_message_def)
  have b1: "files seeded_world ''/ext/out/templates/default.js'' = Some ''module.exports = custom''"
    by (simp add: seeded_world_def)
  then have b2: "existsTemplate unreadable_env seeded_world ''default''"
    by (simp add: existsTemplate_def existsSync_def p)
  have b3: "readFileSync unreadable_env seeded_world (templateFilePath unreadable_env ''default'')
       = Inl (JS_error Error_class ''EACCES: permission denied, open'')"
    using b1 by (simp add: readFileSync_def p unreadable_read_refused read_denied_def)
  from b2 b3 have b4: "fst (getTemplateRenderEstructure unreadable_env seeded_world)
       = Inl (JS_error Error_class ''EACCES: permission denied, open'')"
    by (simp add: getTemplateRenderEstructure_def)
  have c0: "existsTemplate demo_env seeded_world ''default''"
    using b1 by (simp add: existsTemplate_def existsSync_def demo_templateFilePath)
  have c1: "readFileSync demo_env seeded_world (templateFilePath demo_env ''default'')
       = Inr ''module.exports = custom''"
    using b1 by (simp add: readFileSync_def demo_templateFilePath never_refused_def)
  from c0 c1 have c2: "getTemplateRenderEstructure demo_env seeded_world
       = (Inr ''module.exports = custom'', seeded_world)"
    by (simp add: getTemplateRenderEstructure_def)
  then have c3: "constructor demo_env seeded_world
       = (Inr (), ContextManager_saveState seeded_world ''defaultTemplate''
                    ''module.exports = custom'')"
    by (simp add: constructor_def)
  let ?later = "(ContextManager_saveState seeded_world ''defaultTemplate''
                    ''module.exports = custom'')\<lparr>files := Map.empty\<rparr>"
  have c4: "\<not> existsTemplate demo_env ?later ''default''"
    by (simp add: existsTemplate_def existsSync_def demo_templateFilePath
        ContextManager_saveState_def seeded_world_def)
  have c5: "ContextManager_useState ?later ''defaultTemplate'' = Some ''module.exports = custom''"
    by (simp add: ContextManager_useState_def ContextManager_saveState_def)
  from c4 c5 have c6: "fst (getTemplateRenderEstructure demo_env ?later)
       = Inr ''module.exports = custom''"
    by (simp add: getTemplateRenderEstructure_def)
  have d1: "\<not> existsTemplate demo_env fresh_world ''default''"
    by (simp add: existsTemplate_def demo_templateFilePath fresh_world_no_templates_dir)
  have d2: "ContextManager_useState fresh_world ''defaultTemplate''
              = Some ''module.exports = skeleton''"
    by (simp add: ContextManager_useState_def fresh_world_def)
  from d1 d2 have d3: "fst (getTemplateRenderEstructure demo_env fresh_world)
       = Inr ''module.exports = skeleton''"
    by (simp add: getTemplateRenderEstructure_def)
  from demo_existsTemplate(4) a2 a3 b1 b2 b4 c3 c4 c6 d3 show ?thesis by simp
qed

section \<open>The two tiers of render errors\<close>

text \<open>
  Claim C1, as the code has it. When the module loads and its render function throws a
  value that can be printed (anything but \<^verbatim>\<open>undefined\<close> and \<^verbatim>\<open>null\<close>), the error of
  \<^verbatim>\<open>renderTemplateContent\<close> carries the prefix \<^verbatim>\<open>Your template has sintax errors: \<close>
  followed by the printed value. When loading the module at \<^verbatim>\<open>template.path\<close> fails
  with anything that is not a SyntaxError, the error carries the generic message
  \<^verbatim>\<open>An error as ocurred rendering a template.\<close> When loading fails with a SyntaxError,
  the message of that SyntaxError is forwarded as it is.
\<close>

theorem renderTemplateContent_two_tiers:
  "(require e (path template) = Inr templateRender
      \<and> templateRender options = Inl thrown \<and> toString thrown = Inr printed
      \<longrightarrow> fst (renderTemplateContent e w template options)
            = Inl (JS_error Error_class (''Your template has sintax errors: '' @ printed)))
   \<and> (require e (path template) = Inl failure \<and> \<not> instanceof_SyntaxError failure
      \<longrightarrow> fst (renderTemplateContent e w template options)
            = Inl (JS_error Error_class ''An error as ocurred rendering a template.''))
   \<and> (require e (path template) = Inl failure \<and> instanceof_SyntaxError failure
      \<longrightarrow> fst (renderTemplateContent e w template options)
            = Inl (JS_error Error_class (message failure)))"
  by (simp add: renderTemplateContent_def render_catch_fst syntax_prefix_def
      generic_render_message_def)

theorem renderTemplateContent_two_tiers_witness:
  "require demo_env (path (template_of ''boom'')) = Inr boom
   \<and> boom (templateOptions demo_env ''world.txt'' ''/home/dev/project'')
       = Inl (JS_error Error_class ''boom'')
   \<and> fst (renderTemplateContent demo_env demo_world (template_of ''boom'')
            (templateOptions demo_env ''world.txt'' ''/home/dev/project''))
       = Inl (JS_error Error_class ''Your template has sintax errors: Error: boom'')
   \<and> require demo_env (path (template_of ''ghost''))
       = Inl (JS_error Error_class ''Cannot find module'')
   \<and> fst (renderTemplateContent demo_env demo_world (template_of ''ghost'')
            (templateOptions demo_env ''world.txt'' ''/home/dev/project''))
       = Inl (JS_error Error_class ''An error as ocurred rendering a template.'')
   \<and> fst (renderTemplateContent demo_env demo_world (template_of ''broken'')
            (templateOptions demo_env ''world.txt'' ''/home/dev/project''))
       = Inl (JS_error Error_class ''Unexpected token }'')"
proof -
  let ?opts = "templateOptions demo_env ''world.txt'' ''/home/dev/project''"
  have h1: "require demo_env (path (template_of ''boom'')) = Inr boom"
    by (simp add: demo_require_def)
  have h2: "boom ?opts = Inl (JS_error Error_class ''boom'')"
    by (simp add: boom_def)
  have h3: "toString (JS_error Error_class ''boom'') = Inr ''Error: boom''"
    by simp
  have h4: "require demo_env (path (template_of ''ghost''))
       = Inl (JS_error Error_class ''Cannot find module'')"
    by (simp add: demo_require_def)
  have h5: "require demo_env (path (template_of ''broken''))
       = Inl (JS_error SyntaxError_class ''Unexpected token }'')"
    by (simp add: demo_require_def)
  from renderTemplateContent_two_tiers
         [of demo_env "template_of ''boom''" boom ?opts "JS_error Error_class ''boom''"
             "''Error: boom''" demo_world "JS_error Error_class ''Cannot find module''"]
       renderTemplateContent_two_tiers
         [of demo_env "template_of ''ghost''" boom ?opts "JS_error Error_class ''boom''"
             "''Error: boom''" demo_world "JS_error Error_class ''Cannot find module''"]
       renderTemplateContent_two_tiers
         [of demo_env "template_of ''broken''" boom ?opts "JS_error Error_class ''boom''"
             "''Error: boom''" demo_world "JS_error SyntaxError_class ''Unexpected token }''"]
       h1 h2 h3 h4 h5
  show ?thesis by simp
qed

text \<open>
  The claim as stated gives the generic message to every load failure, a malformed module
  included. Loading the malformed \<^verbatim>\<open>broken.js\<close> throws a SyntaxError, which the outer
  \<^verbatim>\<open>catch\<close> takes for the one thrown by the inner \<^verbatim>\<open>catch\<close>: its message is
  forwarded, and the error is not the generic one.
\<close>

theorem load_time_syntax_error_is_forwarded:
  "require demo_env (path (template_of ''broken''))
     = Inl (JS_error SyntaxError_class ''Unexpected token }'')
   \<and> fst (renderTemplateContent demo_env demo_world (template_of ''broken'')
            (templateOptions demo_env ''world.txt'' ''/home/dev/project''))
       = Inl (JS_error Error_class ''Unexpected token }'')
   \<and> fst (renderTemplateContent demo_env demo_world (template_of ''broken'')
            (templateOptions demo_env ''world.txt'' ''/home/dev/project''))
       \<noteq> Inl (JS_error Error_class ''An error as ocurred rendering a template.'')"
proof -
  have h: "require demo_env (path (template_of ''broken''))
       = Inl (JS_error SyntaxError_class ''Unexpected token }'')"
    by (simp add: demo_require_def)
  then have "fst (renderTemplateContent demo_env demo_world (template_of ''broken'')
            (templateOptions demo_env ''world.txt'' ''/home/dev/project''))
       = Inl (JS_error Error_class ''Unexpected token }'')"
    by (simp add: renderTemplateContent_def render_catch_fst)
  with h show ?thesis by simp
qed

section \<open>Listing the templates\<close>

text \<open>
  Claim C3. For every directory listing, \<^verbatim>\<open>useTemplates\<close> resolves with a map whose
  keys are pairwise different and which, under each key, holds the template made from the
  first file of the listing whose stem (the file name with its extension taken off by
  \<^verbatim>\<open>basename\<close>) is that key; a key that is the stem of no file is absent, and later
  files with a stem already seen are dropped. In particular, with the POSIX path
  functions, on a listing of exactly \<^verbatim>\<open>a.ext\<close>, \<^verbatim>\<open>b.ext\<close> and \<^verbatim>\<open>a.ext2\<close> in any
  order the map has two entries, keyed \<^verbatim>\<open>a\<close> and \<^verbatim>\<open>b\<close>, and the entry \<^verbatim>\<open>a\<close> is
  the one of \<^verbatim>\<open>a.ext\<close> and \<^verbatim>\<open>a.ext2\<close> that the listing has first.
\<close>

theorem useTemplates_keeps_first_seen:
  assumes "readdir e (templatesDirPath e) = Inr listing"
  shows "\<exists>templates.
           useTemplates e w = (Inr templates, w)
           \<and> distinct (map fst templates)
           \<and> (\<forall>k. map_of templates k =
                  map_option
                    (\<lambda>f. \<lparr>name = k, filename = f, path = path_join e (templatesDirPath e) f\<rparr>)
                    (find (\<lambda>f. path_basename_ext e f (path_extname e f) = k) listing))
           \<and> (path_extname e = posix_extname \<and> path_basename_ext e = posix_basename_ext
                \<and> distinct listing \<and> set listing = {''a.ext'', ''b.ext'', ''a.ext2''}
              \<longrightarrow> length templates = 2
                  \<and> set (map fst templates) = {''a'', ''b''}
                  \<and> map_option filename (map_of templates ''a'')
                      = Some (hd (filter (\<lambda>f. f \<noteq> ''b.ext'') listing)))"
proof -
  let ?d = "templatesDirPath e"
  let ?templates = "forEach_template_file e ?d [] listing"
  let ?stem = "\<lambda>f. path_basename_ext e f (path_extname e f)"
  have res: "useTemplates e w = (Inr ?templates, w)"
    using assms by (simp add: useTemplates_def)
  have dist: "distinct (map fst ?templates)"
    by (rule distinct_forEach_template_file) simp
  have look: "map_of ?templates k =
                  map_option (\<lambda>f. \<lparr>name = k, filename = f, path = path_join e ?d f\<rparr>)
                    (find (\<lambda>f. ?stem f = k) listing)" for k
    by (simp add: map_of_forEach_template_file)
  have example: "length ?templates = 2
                  \<and> set (map fst ?templates) = {''a'', ''b''}
                  \<and> map_option filename (map_of ?templates ''a'')
                      = Some (hd (filter (\<lambda>f. f \<noteq> ''b.ext'') listing))"
    if posix: "path_extname e = posix_extname" "path_basename_ext e = posix_basename_ext"
      and listing: "distinct listing" "set listing = {''a.ext'', ''b.ext'', ''a.ext2''}"
  proof -
    have stems: "?stem ''a.ext'' = ''a''" "?stem ''b.ext'' = ''b''" "?stem ''a.ext2'' = ''a''"
      by (simp_all add: posix posix_stem_abc)
    have "set (map fst ?templates) = dom (map_of ?templates)"
      by (simp add: dom_map_of_conv_image_fst)
    also have "\<dots> = {k. find (\<lambda>f. ?stem f = k) listing \<noteq> None}"
      by (auto simp: dom_def look)
    also have "\<dots> = ?stem ` set listing"
      by (auto simp: find_None_iff)
    also have "\<dots> = {''a'', ''b''}"
      by (auto simp: listing stems)
    finally have keys: "set (map fst ?templates) = {''a'', ''b''}" .
    have "card (set (map fst ?templates)) = length (map fst ?templates)"
      using dist by (rule distinct_card)
    then have "length ?templates = card (set (map fst ?templates))"
      by simp
    with keys have len: "length ?templates = 2" by simp
    have same: "(?stem f = ''a'') = (f \<noteq> ''b.ext'')" if "f \<in> set listing" for f
      using that by (auto simp: listing stems)
    have "find (\<lambda>f. ?stem f = ''a'') listing = find (\<lambda>f. f \<noteq> ''b.ext'') listing"
      by (rule find_cong) (simp_all add: same)
    moreover have "''a.ext'' \<in> set (filter (\<lambda>f. f \<noteq> ''b.ext'') listing)"
      by (simp add: listing)
    then have "filter (\<lambda>f. f \<noteq> ''b.ext'') listing \<noteq> []"
      by (metis empty_iff list.set(1))
    ultimately have "find (\<lambda>f. ?stem f = ''a'') listing
        = Some (hd (filter (\<lambda>f. f \<noteq> ''b.ext'') listing))"
      by (simp add: find_as_filter split: list.splits)
    then have "map_option filename (map_of ?templates ''a'')
        = Some (hd (filter (\<lambda>f. f \<noteq> ''b.ext'') listing))"
      by (simp add: look)
    with len keys show ?thesis by simp
  qed
  show ?thesis
  proof (intro exI conjI allI impI)
    show "useTemplates e w = (Inr ?templates, w)" by (rule res)
    show "distinct (map fst ?templates)" by (rule dist)
    show "map_of ?templates k =
                  map_option (\<lambda>f. \<lparr>name = k, filename = f, path = path_join e ?d f\<rparr>)
                    (find (\<lambda>f. ?stem f = k) listing)" for k
      by (rule look)
  next
    assume h: "path_extname e = posix_extname \<and> path_basename_ext e = posix_basename_ext
                \<and> distinct listing \<and> set listing = {''a.ext'', ''b.ext'', ''a.ext2''}"
    with example show "length ?templates = 2" by blast
    from h example show "set (map fst ?templates) = {''a'', ''b''}" by blast
    from h example show "map_option filename (map_of ?templates ''a'')
                      = Some (hd (filter (\<lambda>f. f \<noteq> ''b.ext'') listing))" by blast
  qed
qed

theorem useTemplates_keeps_first_seen_witness:
  "readdir demo_env (templatesDirPath demo_env) = Inr [''a.ext2'', ''b.ext'', ''a.ext'']
   \<and> path_extname demo_env = posix_extname
   \<and> path_basename_ext demo_env = posix_basename_ext
   \<and> distinct [''a.ext2'', ''b.ext'', ''a.ext'']
   \<and> set [''a.ext2'', ''b.ext'', ''a.ext''] = {''a.ext'', ''b.ext'', ''a.ext2''}
   \<and> useTemplates demo_env demo_world
       = (Inr [(''a'', \<lparr>name = ''a'', filename = ''a.ext2'',
                         path = ''/ext/out/templates/a.ext2''\<rparr>),
               (''b'', \<lparr>name = ''b'', filename = ''b.ext'',
                         path = ''/ext/out/templates/b.ext''\<rparr>)],
          demo_world)
   \<and> hd (filter (\<lambda>f. f \<noteq> ''b.ext'') [''a.ext2'', ''b.ext'', ''a.ext'']) = ''a.ext2''"
proof -
  let ?listing = "[''a.ext2'', ''b.ext'', ''a.ext'']"
  have h: "readdir demo_env (templatesDirPath demo_env) = Inr ?listing"
    by (simp add: demo_templatesDirPath demo_readdir_def)
  have d: "distinct ?listing" by simp
  have s: "set ?listing = {''a.ext'', ''b.ext'', ''a.ext2''}" by auto
  have joins:
    "posix_join ''/ext/out/templates'' ''a.ext2'' = ''/ext/out/templates/a.ext2''"
    "posix_join ''/ext/out/templates'' ''b.ext'' = ''/ext/out/templates/b.ext''"
    by (simp_all add: posix_join_def posix_normalize_def Let_def)
  have run: "forEach_template_file demo_env ''/ext/out/templates'' [] ?listing
       = [(''a'', \<lparr>name = ''a'', filename = ''a.ext2'',
                         path = ''/ext/out/templates/a.ext2''\<rparr>),
          (''b'', \<lparr>name = ''b'', filename = ''b.ext'',
                         path = ''/ext/out/templates/b.ext''\<rparr>)]"
    by (simp add: add_template_file_def Map_has_def Let_def posix_stem_abc joins)
  from useTemplates_keeps_first_seen [OF h, of demo_world] obtain templates where
    t: "useTemplates demo_env demo_world = (Inr templates, demo_world)"
    and two: "length templates = 2"
    using d s by auto
  have "useTemplates demo_env demo_world
      = (Inr (forEach_template_file demo_env ''/ext/out/templates'' [] ?listing), demo_world)"
    using h by (simp add: useTemplates_def demo_templatesDirPath)
  with run t two h d s show ?thesis by simp
qed

end
